theory Spec2Isabelle
  imports Complex_Main "HOL-Library.Char_ord" "HOL-Library.List_Lexorder" "HOL-Library.AList"
begin

section \<open>Strings and characters\<close>

text \<open>
  A Python \<^verbatim>\<open>str\<close> is modelled as a \<^typ>\<open>string\<close>. The character classes below are
  those of Python on ASCII text, which is the range the development is exact on: a
  character above 0x7F is neither a digit, nor white space, nor a word character, and
  has no other case. The two non-ASCII literals of the sources (the rupee sign and the
  bullet) are written as their UTF-8 bytes.
\<close>

definition newline :: char where
  "newline = CHR 0x0A"

definition is_digit :: "char \<Rightarrow> bool" where
  "is_digit c = (c \<in> set ''0123456789'')"

definition is_upper :: "char \<Rightarrow> bool" where
  "is_upper c = (c \<in> set ''ABCDEFGHIJKLMNOPQRSTUVWXYZ'')"

definition is_lower :: "char \<Rightarrow> bool" where
  "is_lower c = (c \<in> set ''abcdefghijklmnopqrstuvwxyz'')"

text \<open>\<^verbatim>\<open>\s\<close> and \<^verbatim>\<open>str.strip\<close>: tab, line feed, vertical tab, form feed, carriage
  return, the four separators 0x1C..0x1F and the space.\<close>

definition is_space :: "char \<Rightarrow> bool" where
  "is_space c = (c \<in> set [CHR 0x09, CHR 0x0A, CHR 0x0B, CHR 0x0C, CHR 0x0D,
                             CHR 0x1C, CHR 0x1D, CHR 0x1E, CHR 0x1F, CHR 0x20])"

text \<open>\<^verbatim>\<open>\w\<close>, which decides \<^verbatim>\<open>\b\<close>: letters, digits and the underscore.\<close>

definition is_word :: "char \<Rightarrow> bool" where
  "is_word c = (is_upper c \<or> is_lower c \<or> is_digit c \<or> c = CHR ''_'')"

text \<open>\<^verbatim>\<open>str.lower\<close>, one character at a time.\<close>

definition lower_char :: "char \<Rightarrow> char" where
  "lower_char c =
     (case map_of (zip ''ABCDEFGHIJKLMNOPQRSTUVWXYZ'' ''abcdefghijklmnopqrstuvwxyz'') c of
        Some l \<Rightarrow> l
      | None \<Rightarrow> c)"

definition lower :: "string \<Rightarrow> string" where
  "lower s = map lower_char s"

text \<open>\<^verbatim>\<open>str.strip()\<close>: white space is removed at both ends.\<close>

definition strip :: "string \<Rightarrow> string" where
  "strip s = rev (dropWhile is_space (rev (dropWhile is_space s)))"

text \<open>\<^verbatim>\<open>sub in s\<close>: \<^term>\<open>sub\<close> occurs in \<^term>\<open>s\<close> as a contiguous run.\<close>

fun starts_with :: "string \<Rightarrow> string \<Rightarrow> bool" where
  "starts_with [] s = True"
| "starts_with (p # ps) [] = False"
| "starts_with (p # ps) (c # cs) = (p = c \<and> starts_with ps cs)"

fun contains :: "string \<Rightarrow> string \<Rightarrow> bool" where
  "contains sub [] = starts_with sub []"
| "contains sub (c # cs) = (starts_with sub (c # cs) \<or> contains sub cs)"

text \<open>\<^verbatim>\<open>s.split('\n')\<close>: the pieces between line feeds; never an empty list.\<close>

fun split_lines :: "string \<Rightarrow> string list" where
  "split_lines [] = [[]]"
| "split_lines (c # cs) =
     (if c = newline then [] # split_lines cs
      else (case split_lines cs of
              [] \<Rightarrow> [[c]]
            | l # ls \<Rightarrow> (c # l) # ls))"

text \<open>\<^verbatim>\<open>s.replace(old, new)\<close> for a single character \<^term>\<open>old\<close>.\<close>

definition replace_char :: "char \<Rightarrow> string \<Rightarrow> string \<Rightarrow> string" where
  "replace_char old new s = concat (map (\<lambda>c. if c = old then new else [c]) s)"

section \<open>Regular expressions\<close>

text \<open>
  The fragment of Python's \<^verbatim>\<open>re\<close> the sources use: character classes, concatenation,
  ordered alternation, the greedy \<^verbatim>\<open>?\<close>, the greedy \<^verbatim>\<open>*\<close> and \<^verbatim>\<open>+\<close> on a single
  character class, and \<^verbatim>\<open>\b\<close>. A position is the character before it (if any) and
  the input still to read. \<^verbatim>\<open>matches r p\<close> lists the positions at which a match of
  \<^verbatim>\<open>r\<close> begun at \<^verbatim>\<open>p\<close> can end, in the order the backtracking matcher tries them:
  the head of the list is the match Python reports.
\<close>

datatype regex =
    Eps
  | Cls "char \<Rightarrow> bool"
  | Seq regex regex
  | Alt regex regex
  | Opt regex
  | Star "char \<Rightarrow> bool"
  | WordB

type_synonym pos = "char option \<times> string"

fun star :: "(char \<Rightarrow> bool) \<Rightarrow> pos \<Rightarrow> pos list" where
  "star p (prev, []) = [(prev, [])]"
| "star p (prev, c # cs) =
     (if p c then star p (Some c, cs) @ [(prev, c # cs)] else [(prev, c # cs)])"

definition word_before :: "pos \<Rightarrow> bool" where
  "word_before p = (case fst p of None \<Rightarrow> False | Some c \<Rightarrow> is_word c)"

definition word_after :: "pos \<Rightarrow> bool" where
  "word_after p = (case snd p of [] \<Rightarrow> False | c # cs \<Rightarrow> is_word c)"

primrec matches :: "regex \<Rightarrow> pos \<Rightarrow> pos list" where
  "matches Eps p = [p]"
| "matches (Cls f) p =
     (case snd p of
        [] \<Rightarrow> []
      | c # cs \<Rightarrow> if f c then [(Some c, cs)] else [])"
| "matches (Seq a b) p = concat (map (matches b) (matches a p))"
| "matches (Alt a b) p = matches a p @ matches b p"
| "matches (Opt a) p = matches a p @ [p]"
| "matches (Star f) p = star f p"
| "matches WordB p = (if word_before p = word_after p then [] else [p])"

text \<open>\<^verbatim>\<open>re.search\<close>: the first start position, from the left, at which the pattern
  matches; the result is the input from the start of the match and the input after it.\<close>

fun search_from :: "regex \<Rightarrow> char option \<Rightarrow> string \<Rightarrow> (string \<times> string) option" where
  "search_from r prev [] =
     (case matches r (prev, []) of
        [] \<Rightarrow> None
      | e # es \<Rightarrow> Some ([], snd e))"
| "search_from r prev (c # cs) =
     (case matches r (prev, c # cs) of
        [] \<Rightarrow> search_from r (Some c) cs
      | e # es \<Rightarrow> Some (c # cs, snd e))"

definition re_search :: "regex \<Rightarrow> string \<Rightarrow> (string \<times> string) option" where
  "re_search r s = search_from r None s"

text \<open>The text of a match: what lies between its start and its end.\<close>

definition matched_text :: "string \<times> string \<Rightarrow> string" where
  "matched_text m = take (length (fst m) - length (snd m)) (fst m)"

text \<open>
  \<^verbatim>\<open>re.findall\<close> for a pattern that cannot match the empty string (both patterns it is
  called with need at least one character): the texts of the matches from left to
  right, each search resuming where the previous match ended. The counter is the number
  of characters of the current match still to step over.
\<close>

fun findall_from :: "regex \<Rightarrow> nat \<Rightarrow> char option \<Rightarrow> string \<Rightarrow> string list" where
  "findall_from r k prev [] = []"
| "findall_from r (Suc k) prev (c # cs) = findall_from r k (Some c) cs"
| "findall_from r 0 prev (c # cs) =
     (case matches r (prev, c # cs) of
        [] \<Rightarrow> findall_from r 0 (Some c) cs
      | e # es \<Rightarrow>
          matched_text (c # cs, snd e)
            # findall_from r (length (c # cs) - length (snd e) - 1) (Some c) cs)"

definition re_findall :: "regex \<Rightarrow> string \<Rightarrow> string list" where
  "re_findall r s = findall_from r 0 None s"

text \<open>Pattern building blocks: a literal word, the same under \<^verbatim>\<open>re.IGNORECASE\<close>,
  \<^verbatim>\<open>x+\<close> for a class, and a sequence.\<close>

definition lit :: "string \<Rightarrow> regex" where
  "lit s = foldr (\<lambda>c r. Seq (Cls (\<lambda>x. x = c)) r) s Eps"

definition ilit :: "string \<Rightarrow> regex" where
  "ilit s = foldr (\<lambda>c r. Seq (Cls (\<lambda>x. lower_char x = lower_char c)) r) s Eps"

definition many1 :: "(char \<Rightarrow> bool) \<Rightarrow> regex" where
  "many1 f = Seq (Cls f) (Star f)"

definition seqs :: "regex list \<Rightarrow> regex" where
  "seqs rs = foldr Seq rs Eps"

definition alts :: "regex \<Rightarrow> regex list \<Rightarrow> regex" where
  "alts r rs = foldr (\<lambda>a b. Alt b a) (rev rs) r"

section \<open>The heuristic extractor (src/app.py)\<close>

subsection \<open>The record\<close>

text \<open>
  The financial record is a Python dictionary; the renderer reads every key with
  \<^verbatim>\<open>.get(key, default)\<close>, so a key may be missing. Dictionaries whose order of
  insertion is kept are association lists, updated in place by \<^const>\<open>AList.update\<close>.
  A Python float is modelled by the exact decimal number its token denotes; the rounding
  to binary64 is not modelled.
\<close>

type_synonym year_values = "(string \<times> rat) list"

type_synonym line_item_values = "(string \<times> year_values) list"

record financial_record =
  company_name :: "string option"
  fiscal_years :: "string list option"
  financial_data :: "line_item_values option"
  currency :: "string option"
  units :: "string option"
  notes_list :: "string list option"

subsection \<open>Patterns\<close>

text \<open>\<^verbatim>\<open>\b(20\d{2})\b\<close>\<close>

definition year_pattern :: regex where
  "year_pattern = seqs [WordB, lit ''20'', Cls is_digit, Cls is_digit, WordB]"

text \<open>\<^verbatim>\<open>[\d,]+\.?\d*\<close>\<close>

definition number_pattern :: regex where
  "number_pattern =
     seqs [many1 (\<lambda>c. is_digit c \<or> c = CHR '',''), Opt (lit ''.''), Star is_digit]"

text \<open>\<^verbatim>\<open>([A-Z][A-Za-z\s&]+(?:LIMITED|LTD|CORPORATION|CORP|INC|INDUSTRIES))\<close>\<close>

definition company_pattern :: regex where
  "company_pattern =
     seqs [Cls is_upper,
           many1 (\<lambda>c. is_upper c \<or> is_lower c \<or> is_space c \<or> c = CHR ''&''),
           alts (lit ''LIMITED'')
             [lit ''LTD'', lit ''CORPORATION'', lit ''CORP'', lit ''INC'', lit ''INDUSTRIES'']]"

text \<open>\<^verbatim>\<open>\s+\<close> and \<^verbatim>\<open>.*\<close> (the dot matches anything but a line feed).\<close>

definition spaces :: regex where
  "spaces = many1 is_space"

definition anything :: regex where
  "anything = Star (\<lambda>c. c \<noteq> newline)"

text \<open>The table \<^verbatim>\<open>line_items\<close>: for each key its label patterns, in the order of the
  source; all are matched with \<^verbatim>\<open>re.IGNORECASE\<close>.\<close>

definition line_items :: "(string \<times> regex list) list" where
  "line_items =
    [(''revenue'',
        [seqs [ilit ''revenue'', spaces, ilit ''from'', spaces, ilit ''operations''],
         seqs [ilit ''total'', spaces, ilit ''revenue''],
         ilit ''sales'',
         seqs [ilit ''net'', spaces, ilit ''revenue''],
         ilit ''revenues'']),
     (''cost_of_revenue'',
        [seqs [ilit ''cost'', spaces, ilit ''of'', spaces,
               alts (ilit ''revenue'')
                 [seqs [ilit ''goods'', spaces, ilit ''sold''], ilit ''materials'']],
         ilit ''cogs'',
         seqs [ilit ''cost'', spaces, ilit ''of'', spaces, ilit ''sales'']]),
     (''gross_profit'',
        [seqs [ilit ''gross'', spaces, ilit ''profit''],
         seqs [ilit ''gross'', spaces, ilit ''margin'']]),
     (''operating_expenses'',
        [seqs [ilit ''operating'', spaces, alts (ilit ''expenses'') [ilit ''costs'']],
         ilit ''sga'',
         seqs [ilit ''selling'', anything, ilit ''administrative'']]),
     (''operating_income'',
        [seqs [ilit ''operating'', spaces, alts (ilit ''income'') [ilit ''profit'']],
         ilit ''ebit'']),
     (''interest_expense'',
        [seqs [ilit ''interest'', spaces, alts (ilit ''expense'') [ilit ''paid'']]]),
     (''tax_expense'',
        [seqs [Opt (seqs [ilit ''income'', spaces]), ilit ''tax'', spaces,
               alts (ilit ''expense'') [ilit ''cost'']],
         seqs [ilit ''provision'', spaces, ilit ''for'', spaces, ilit ''taxes'']]),
     (''net_income'',
        [seqs [ilit ''net'', spaces, alts (ilit ''income'') [ilit ''profit'']],
         ilit ''earnings'',
         seqs [ilit ''net'', spaces, ilit ''earnings'']]),
     (''total_assets'',
        [seqs [ilit ''total'', spaces, ilit ''assets'']]),
     (''total_liabilities'',
        [seqs [ilit ''total'', spaces, ilit ''liabilities'']]),
     (''shareholders_equity'',
        [seqs [alts (ilit ''shareholders'') [ilit ''stockholders''], spaces, ilit ''equity''],
         seqs [ilit ''total'', spaces, ilit ''equity'']])]"

subsection \<open>Conversion of a token\<close>

datatype py_exception = ValueError string

definition exception_text :: "py_exception \<Rightarrow> string" where
  "exception_text e = (case e of ValueError s \<Rightarrow> ''could not convert string to float: '' @ s)"

definition digit_value :: "char \<Rightarrow> nat" where
  "digit_value c = of_char c - 48"

definition digits_value :: "string \<Rightarrow> nat" where
  "digits_value s = foldl (\<lambda>n c. 10 * n + digit_value c) 0 s"

text \<open>
  \<^verbatim>\<open>float(s)\<close> on the strings the call site passes: a token of \<^verbatim>\<open>[\d,]+\.?\d*\<close> with
  its commas removed is a run of digits, at most one point, and a run of digits. It
  converts when it holds a digit, and raises \<^verbatim>\<open>ValueError\<close> when it holds none (the
  empty string and the lone point). No such token holds a sign, an exponent, an
  underscore or white space; the model rejects those spellings.
\<close>

definition py_float :: "string \<Rightarrow> py_exception + rat" where
  "py_float s =
     (let ip = takeWhile is_digit s in
      case dropWhile is_digit s of
        [] \<Rightarrow> if ip = [] then Inl (ValueError s) else Inr (of_nat (digits_value ip))
      | c # fp \<Rightarrow>
          if c = CHR ''.'' \<and> list_all is_digit fp \<and> (ip \<noteq> [] \<or> fp \<noteq> [])
          then Inr (of_nat (digits_value ip) + of_nat (digits_value fp) / 10 ^ length fp)
          else Inl (ValueError s))"

subsection \<open>The fields\<close>

definition extract_company_name :: "string \<Rightarrow> string" where
  "extract_company_name document_text =
     (case re_search company_pattern document_text of
        Some m \<Rightarrow> strip (matched_text m)
      | None \<Rightarrow> ''Unknown'')"

definition rupee_sign :: string where
  "rupee_sign = [CHR 0xE2, CHR 0x82, CHR 0xB9]"

definition extract_currency :: "string \<Rightarrow> string" where
  "extract_currency document_text =
     (if contains rupee_sign document_text \<or> contains ''crores'' (lower document_text)
      then ''INR'' else ''USD'')"

definition extract_units :: "string \<Rightarrow> string" where
  "extract_units document_text =
     (if contains ''crores'' (lower document_text) then ''Crores'' else ''Actual'')"

text \<open>\<^verbatim>\<open>sorted(set(re.findall(year_pattern, document_text)), reverse=True)\<close>, the default
  when nothing was found, and the first three.\<close>

definition found_years :: "string \<Rightarrow> string list" where
  "found_years document_text = rev (sort (remdups (re_findall year_pattern document_text)))"

definition extract_fiscal_years :: "string \<Rightarrow> string list" where
  "extract_fiscal_years document_text =
     (let years = found_years document_text;
          years = (if years = [] then [''2024'', ''2023''] else years)
      in take 3 years)"

subsection \<open>The scan\<close>

text \<open>The body of the inner \<^verbatim>\<open>try\<close>: the conversion may raise.\<close>

definition convert_and_store ::
  "string \<Rightarrow> string \<Rightarrow> year_values \<Rightarrow> py_exception + year_values" where
  "convert_and_store year token d =
     (case py_float (replace_char (CHR '','') [] token) of
        Inl e \<Rightarrow> Inl e
      | Inr v \<Rightarrow> Inr (AList.update year v d))"

text \<open>The \<^verbatim>\<open>try\<close> with its bare \<^verbatim>\<open>except: pass\<close>.\<close>

definition try_convert_and_store ::
  "string \<Rightarrow> string \<Rightarrow> year_values \<Rightarrow> py_exception + year_values" where
  "try_convert_and_store year token d =
     (case convert_and_store year token d of
        Inl e \<Rightarrow> Inr d
      | Inr d' \<Rightarrow> Inr d')"

text \<open>\<^verbatim>\<open>for j, year in enumerate(fiscal_years): if j < len(numbers): ...\<close>\<close>

fun assign_years ::
  "nat \<Rightarrow> string list \<Rightarrow> string list \<Rightarrow> year_values \<Rightarrow> py_exception + year_values" where
  "assign_years j [] numbers d = Inr d"
| "assign_years j (year # years) numbers d =
     (case (if j < length numbers then try_convert_and_store year (numbers ! j) d else Inr d) of
        Inl e \<Rightarrow> Inl e
      | Inr d' \<Rightarrow> assign_years (Suc j) years numbers d')"

text \<open>The loop over the lines for one pattern. The \<^verbatim>\<open>break\<close> stands inside
  \<^verbatim>\<open>if numbers:\<close>, after the loop over the years: a line in which the pattern is found
  ends the loop when it holds a number, and the loop goes on to the next line when it
  holds none.\<close>

fun scan_lines ::
  "regex \<Rightarrow> string list \<Rightarrow> string list \<Rightarrow> year_values \<Rightarrow> py_exception + year_values" where
  "scan_lines pattern [] years d = Inr d"
| "scan_lines pattern (line # lines) years d =
     (if re_search pattern line \<noteq> None then
        (let numbers = re_findall number_pattern line in
         if numbers \<noteq> [] then assign_years 0 years numbers d
         else scan_lines pattern lines years d)
      else scan_lines pattern lines years d)"

text \<open>The loop over the patterns of one line item. The \<^verbatim>\<open>break\<close> above leaves the loop
  over the lines only: every pattern is scanned, each on the values the earlier ones
  left.\<close>

fun scan_patterns ::
  "regex list \<Rightarrow> string \<Rightarrow> string list \<Rightarrow> year_values \<Rightarrow> py_exception + year_values" where
  "scan_patterns [] document_text years d = Inr d"
| "scan_patterns (pattern # patterns) document_text years d =
     (case scan_lines pattern (split_lines document_text) years d of
        Inl e \<Rightarrow> Inl e
      | Inr d' \<Rightarrow> scan_patterns patterns document_text years d')"

text \<open>The loop over the line items: each starts from the empty dictionary.\<close>

fun scan_items ::
  "(string \<times> regex list) list \<Rightarrow> string \<Rightarrow> string list \<Rightarrow> line_item_values
     \<Rightarrow> py_exception + line_item_values" where
  "scan_items [] document_text years fd = Inr fd"
| "scan_items (item # items) document_text years fd =
     (case scan_patterns (snd item) document_text years [] of
        Inl e \<Rightarrow> Inl e
      | Inr d \<Rightarrow> scan_items items document_text years (AList.update (fst item) d fd))"

text \<open>\<^verbatim>\<open>{k: v for k, v in financial_data.items() if v}\<close>\<close>

definition remove_empty_items :: "line_item_values \<Rightarrow> line_item_values" where
  "remove_empty_items fd = filter (\<lambda>kv. snd kv \<noteq> []) fd"

definition pattern_notes :: "string list" where
  "pattern_notes =
     [''Data extracted using pattern matching'',
      ''Some values may be approximate if document format varies'',
      ''Manual review recommended for accuracy'']"

text \<open>The body of the outer \<^verbatim>\<open>try\<close>.\<close>

definition extract_body :: "string \<Rightarrow> py_exception + financial_record" where
  "extract_body document_text =
     (let years = extract_fiscal_years document_text in
      case scan_items line_items document_text years [] of
        Inl e \<Rightarrow> Inl e
      | Inr fd \<Rightarrow>
          Inr \<lparr>company_name = Some (extract_company_name document_text),
               fiscal_years = Some years,
               financial_data = Some (remove_empty_items fd),
               currency = Some (extract_currency document_text),
               units = Some (extract_units document_text),
               notes_list = Some pattern_notes\<rparr>)"

text \<open>The function returns the pair \<^verbatim>\<open>(result, None)\<close>, or \<^verbatim>\<open>(None, message)\<close> from
  the outer \<^verbatim>\<open>except\<close>.\<close>

definition extract_financial_data_with_patterns ::
  "string \<Rightarrow> financial_record option \<times> string option" where
  "extract_financial_data_with_patterns document_text =
     (case extract_body document_text of
        Inl e \<Rightarrow> (None, Some (''Error extracting financial data: '' @ exception_text e))
      | Inr r \<Rightarrow> (Some r, None))"

section \<open>The report renderer\<close>

subsection \<open>Worksheets\<close>

text \<open>
  What the renderer uses of openpyxl: a worksheet is its title, its cells by
  (row, column) with column A as 1, its merged ranges (first row, first column, last
  row, last column) and its column widths by column index. A cell holds a value, its
  styles (absent until set) and a number format. Reading a cell that does not exist
  yet creates it.
\<close>

datatype cell_value = Blank | Text string | Number rat

record font =
  font_bold :: bool
  font_italic :: bool
  font_color :: "string option"
  font_size :: "nat option"

record pattern_fill =
  start_color :: string
  end_color :: string
  fill_type :: string

record border =
  border_left :: string
  border_right :: string
  border_top :: string
  border_bottom :: string

record alignment =
  horizontal :: string

record cell =
  content :: cell_value
  cell_font :: "font option"
  cell_fill :: "pattern_fill option"
  cell_border :: "border option"
  cell_alignment :: "alignment option"
  number_format :: string

record worksheet =
  title :: string
  cells :: "nat \<times> nat \<Rightarrow> cell option"
  merged_cells :: "(nat \<times> nat \<times> nat \<times> nat) list"
  column_widths :: "nat \<Rightarrow> nat option"

record workbook =
  active :: worksheet

definition new_cell :: cell where
  "new_cell =
     \<lparr>content = Blank, cell_font = None, cell_fill = None, cell_border = None,
      cell_alignment = None, number_format = ''General''\<rparr>"

definition new_worksheet :: worksheet where
  "new_worksheet =
     \<lparr>title = ''Sheet'', cells = (\<lambda>rc. None), merged_cells = [],
      column_widths = (\<lambda>col. None)\<rparr>"

definition get_cell :: "nat \<times> nat \<Rightarrow> worksheet \<Rightarrow> cell" where
  "get_cell rc ws = (case cells ws rc of None \<Rightarrow> new_cell | Some c \<Rightarrow> c)"

definition set_content :: "nat \<times> nat \<Rightarrow> cell_value \<Rightarrow> worksheet \<Rightarrow> worksheet" where
  "set_content rc v ws = ws\<lparr>cells := (cells ws)(rc \<mapsto> (get_cell rc ws)\<lparr>content := v\<rparr>)\<rparr>"

definition set_font :: "nat \<times> nat \<Rightarrow> font \<Rightarrow> worksheet \<Rightarrow> worksheet" where
  "set_font rc f ws = ws\<lparr>cells := (cells ws)(rc \<mapsto> (get_cell rc ws)\<lparr>cell_font := Some f\<rparr>)\<rparr>"

definition set_fill :: "nat \<times> nat \<Rightarrow> pattern_fill \<Rightarrow> worksheet \<Rightarrow> worksheet" where
  "set_fill rc f ws = ws\<lparr>cells := (cells ws)(rc \<mapsto> (get_cell rc ws)\<lparr>cell_fill := Some f\<rparr>)\<rparr>"

definition set_border :: "nat \<times> nat \<Rightarrow> border \<Rightarrow> worksheet \<Rightarrow> worksheet" where
  "set_border rc b ws =
     ws\<lparr>cells := (cells ws)(rc \<mapsto> (get_cell rc ws)\<lparr>cell_border := Some b\<rparr>)\<rparr>"

definition set_alignment :: "nat \<times> nat \<Rightarrow> alignment \<Rightarrow> worksheet \<Rightarrow> worksheet" where
  "set_alignment rc a ws =
     ws\<lparr>cells := (cells ws)(rc \<mapsto> (get_cell rc ws)\<lparr>cell_alignment := Some a\<rparr>)\<rparr>"

definition set_number_format :: "nat \<times> nat \<Rightarrow> string \<Rightarrow> worksheet \<Rightarrow> worksheet" where
  "set_number_format rc f ws =
     ws\<lparr>cells := (cells ws)(rc \<mapsto> (get_cell rc ws)\<lparr>number_format := f\<rparr>)\<rparr>"

definition merge_cells :: "nat \<times> nat \<times> nat \<times> nat \<Rightarrow> worksheet \<Rightarrow> worksheet" where
  "merge_cells rng ws = ws\<lparr>merged_cells := merged_cells ws @ [rng]\<rparr>"

definition set_width :: "nat \<Rightarrow> nat \<Rightarrow> worksheet \<Rightarrow> worksheet" where
  "set_width col w ws = ws\<lparr>column_widths := (column_widths ws)(col \<mapsto> w)\<rparr>"

subsection \<open>Styles and labels\<close>

definition solid_fill :: "string \<Rightarrow> pattern_fill" where
  "solid_fill colour = \<lparr>start_color = colour, end_color = colour, fill_type = ''solid''\<rparr>"

definition header_fill :: pattern_fill where
  "header_fill = solid_fill ''1F4E78''"

definition header_font :: font where
  "header_font =
     \<lparr>font_bold = True, font_italic = False, font_color = Some ''FFFFFF'', font_size = Some 12\<rparr>"

text \<open>\<^verbatim>\<open>data_fill\<close> is built in src/app.py and never used; src/api/extract.py has no
  such line.\<close>

definition data_fill :: pattern_fill where
  "data_fill = solid_fill ''D9E1F2''"

definition missing_fill :: pattern_fill where
  "missing_fill = solid_fill ''FFC7CE''"

definition missing_font :: font where
  "missing_font =
     \<lparr>font_bold = False, font_italic = True, font_color = Some ''9C0006'', font_size = None\<rparr>"

definition thin_border :: border where
  "thin_border =
     \<lparr>border_left = ''thin'', border_right = ''thin'', border_top = ''thin'',
      border_bottom = ''thin''\<rparr>"

definition title_font :: font where
  "title_font =
     \<lparr>font_bold = True, font_italic = False, font_color = None, font_size = Some 14\<rparr>"

definition bold_font :: font where
  "bold_font =
     \<lparr>font_bold = True, font_italic = False, font_color = None, font_size = None\<rparr>"

definition right_alignment :: alignment where
  "right_alignment = \<lparr>horizontal = ''right''\<rparr>"

definition bullet :: string where
  "bullet = [CHR 0xE2, CHR 0x80, CHR 0xA2]"

text \<open>\<^verbatim>\<open>financial_items_list\<close>: the keys with their labels, the same in both files.\<close>

definition financial_items_list :: "(string \<times> string) list" where
  "financial_items_list =
     [(''revenue'', ''Revenue''),
      (''cost_of_revenue'', ''Cost of Revenue''),
      (''gross_profit'', ''Gross Profit''),
      (''operating_expenses'', ''Operating Expenses''),
      (''operating_income'', ''Operating Income''),
      (''interest_expense'', ''Interest Expense''),
      (''tax_expense'', ''Tax Expense''),
      (''net_income'', ''Net Income''),
      (''total_assets'', ''Total Assets''),
      (''total_liabilities'', ''Total Liabilities''),
      (''shareholders_equity'', ''Shareholders'' @ [CHR 0x27] @ '' Equity'')]"

subsection \<open>The renderer of src/app.py\<close>

text \<open>\<^verbatim>\<open>for col_idx, year in enumerate(years, start=2)\<close> on row 5 (src/app.py).\<close>

fun header_cells :: "nat \<Rightarrow> string list \<Rightarrow> worksheet \<Rightarrow> worksheet" where
  "header_cells col_idx [] ws = ws"
| "header_cells col_idx (year # years) ws =
     header_cells (Suc col_idx) years
       (set_border (5, col_idx) thin_border
         (set_font (5, col_idx) header_font
           (set_fill (5, col_idx) header_fill
             (set_content (5, col_idx) (Text (''FY '' @ year)) ws))))"

text \<open>The cell of one line item and one year (src/app.py):
  \<^verbatim>\<open>if key in data and year in data[key]\<close>, else the marker.\<close>

definition year_cell ::
  "nat \<times> nat \<Rightarrow> string \<Rightarrow> string \<Rightarrow> line_item_values \<Rightarrow> worksheet \<Rightarrow> worksheet" where
  "year_cell rc key year data ws =
     set_alignment rc right_alignment
       (set_border rc thin_border
         (case map_of data key of
            None \<Rightarrow>
              set_font rc missing_font
                (set_fill rc missing_fill (set_content rc (Text ''N/A'') ws))
          | Some vs \<Rightarrow>
              (case map_of vs year of
                 None \<Rightarrow>
                   set_font rc missing_font
                     (set_fill rc missing_fill (set_content rc (Text ''N/A'') ws))
               | Some v \<Rightarrow>
                   set_number_format rc ''#,##0.00'' (set_content rc (Number v) ws))))"

text \<open>\<^verbatim>\<open>for col_idx, year in enumerate(years, start=2)\<close> on the row of a line item
  (src/app.py).\<close>

fun year_cells ::
  "nat \<Rightarrow> nat \<Rightarrow> string \<Rightarrow> line_item_values \<Rightarrow> string list \<Rightarrow> worksheet \<Rightarrow> worksheet" where
  "year_cells row col_idx key data [] ws = ws"
| "year_cells row col_idx key data (year # years) ws =
     year_cells row (Suc col_idx) key data years
       (year_cell (row, col_idx) key year data ws)"

text \<open>\<^verbatim>\<open>for key, label in financial_items_list\<close> (src/app.py): the label in column A, the
  year cells, and \<^verbatim>\<open>row += 1\<close>. The result is the sheet and the row after the loop.\<close>

fun item_rows ::
  "nat \<Rightarrow> (string \<times> string) list \<Rightarrow> line_item_values \<Rightarrow> string list \<Rightarrow> worksheet
     \<Rightarrow> worksheet \<times> nat" where
  "item_rows row [] data years ws = (ws, row)"
| "item_rows row (item # items) data years ws =
     item_rows (Suc row) items data years
       (year_cells row 2 (fst item) data years
         (set_border (row, 1) thin_border
           (set_font (row, 1) bold_font
             (set_content (row, 1) (Text (snd item)) ws))))"

text \<open>\<^verbatim>\<open>for note in notes: row += 1; ...\<close> (src/app.py).\<close>

fun note_rows :: "nat \<Rightarrow> string list \<Rightarrow> worksheet \<Rightarrow> worksheet" where
  "note_rows row [] ws = ws"
| "note_rows row (note # notes) ws =
     note_rows (Suc row) notes
       (merge_cells (Suc row, 1, Suc row, 5)
         (set_content (Suc row, 1) (Text (bullet @ '' '' @ note)) ws))"

text \<open>\<^verbatim>\<open>for col_idx in range(2, 2 + len(years))\<close> (src/app.py).\<close>

fun year_widths :: "nat list \<Rightarrow> worksheet \<Rightarrow> worksheet" where
  "year_widths [] ws = ws"
| "year_widths (col_idx # cols) ws = year_widths cols (set_width col_idx 18 ws)"

text \<open>\<^verbatim>\<open>create_excel_workbook\<close> of src/app.py.\<close>

definition create_excel_workbook :: "financial_record \<Rightarrow> workbook" where
  "create_excel_workbook rec =
     (let ws = new_worksheet;
          ws = ws\<lparr>title := ''Financial Data''\<rparr>;
          ws = set_content (1, 1)
                 (Text (''Financial Statement - ''
                    @ (case company_name rec of None \<Rightarrow> ''Unknown Company'' | Some n \<Rightarrow> n))) ws;
          ws = set_font (1, 1) title_font ws;
          ws = merge_cells (1, 1, 1, 5) ws;
          ws = set_content (2, 1)
                 (Text (''Currency: ''
                    @ (case currency rec of None \<Rightarrow> ''Unknown'' | Some c \<Rightarrow> c))) ws;
          ws = set_content (3, 1)
                 (Text (''Units: '' @ (case units rec of None \<Rightarrow> ''Actual'' | Some u \<Rightarrow> u))) ws;
          years = (case fiscal_years rec of None \<Rightarrow> [] | Some ys \<Rightarrow> ys);
          ws = set_content (5, 1) (Text ''Line Item'') ws;
          ws = set_fill (5, 1) header_fill ws;
          ws = set_font (5, 1) header_font ws;
          ws = set_border (5, 1) thin_border ws;
          ws = header_cells 2 years ws;
          data = (case financial_data rec of None \<Rightarrow> [] | Some d \<Rightarrow> d);
          (ws, row) = item_rows 6 financial_items_list data years ws;
          row = row + 2;
          ws = set_content (row, 1) (Text ''Notes & Assumptions:'') ws;
          ws = set_font (row, 1) bold_font ws;
          ws = note_rows row (case notes_list rec of None \<Rightarrow> [] | Some ns \<Rightarrow> ns) ws;
          ws = set_width 1 25 ws;
          ws = year_widths [2 ..< 2 + length years] ws
      in \<lparr>active = ws\<rparr>)"

subsection \<open>The renderer of src/api/extract.py\<close>

text \<open>\<^verbatim>\<open>for col_idx, year in enumerate(years, start=2)\<close> on row 5 (src/api/extract.py).\<close>

fun header_cells_api :: "nat \<Rightarrow> string list \<Rightarrow> worksheet \<Rightarrow> worksheet" where
  "header_cells_api col_idx [] ws = ws"
| "header_cells_api col_idx (year # years) ws =
     header_cells_api (Suc col_idx) years
       (set_border (5, col_idx) thin_border
         (set_font (5, col_idx) header_font
           (set_fill (5, col_idx) header_fill
             (set_content (5, col_idx) (Text (''FY '' @ year)) ws))))"

text \<open>The cell of one line item and one year (src/api/extract.py):
  \<^verbatim>\<open>if key in data and year in data[key]\<close>, else the marker.\<close>

definition year_cell_api ::
  "nat \<times> nat \<Rightarrow> string \<Rightarrow> string \<Rightarrow> line_item_values \<Rightarrow> worksheet \<Rightarrow> worksheet" where
  "year_cell_api rc key year data ws =
     set_alignment rc right_alignment
       (set_border rc thin_border
         (case map_of data key of
            None \<Rightarrow>
              set_font rc missing_font
                (set_fill rc missing_fill (set_content rc (Text ''N/A'') ws))
          | Some vs \<Rightarrow>
              (case map_of vs year of
                 None \<Rightarrow>
                   set_font rc missing_font
                     (set_fill rc missing_fill (set_content rc (Text ''N/A'') ws))
               | Some v \<Rightarrow>
                   set_number_format rc ''#,##0.00'' (set_content rc (Number v) ws))))"

text \<open>\<^verbatim>\<open>for col_idx, year in enumerate(years, start=2)\<close> on the row of a line item
  (src/api/extract.py).\<close>

fun year_cells_api ::
  "nat \<Rightarrow> nat \<Rightarrow> string \<Rightarrow> line_item_values \<Rightarrow> string list \<Rightarrow> worksheet \<Rightarrow> worksheet" where
  "year_cells_api row col_idx key data [] ws = ws"
| "year_cells_api row col_idx key data (year # years) ws =
     year_cells_api row (Suc col_idx) key data years
       (year_cell_api (row, col_idx) key year data ws)"

text \<open>\<^verbatim>\<open>for key, label in financial_items_list\<close> (src/api/extract.py): the label in column A, the
  year cells, and \<^verbatim>\<open>row += 1\<close>. The result is the sheet and the row after the loop.\<close>

fun item_rows_api ::
  "nat \<Rightarrow> (string \<times> string) list \<Rightarrow> line_item_values \<Rightarrow> string list \<Rightarrow> worksheet
     \<Rightarrow> worksheet \<times> nat" where
  "item_rows_api row [] data years ws = (ws, row)"
| "item_rows_api row (item # items) data years ws =
     item_rows_api (Suc row) items data years
       (year_cells_api row 2 (fst item) data years
         (set_border (row, 1) thin_border
           (set_font (row, 1) bold_font
             (set_content (row, 1) (Text (snd item)) ws))))"

text \<open>\<^verbatim>\<open>for note in notes: row += 1; ...\<close> (src/api/extract.py).\<close>

fun note_rows_api :: "nat \<Rightarrow> string list \<Rightarrow> worksheet \<Rightarrow> worksheet" where
  "note_rows_api row [] ws = ws"
| "note_rows_api row (note # notes) ws =
     note_rows_api (Suc row) notes
       (merge_cells (Suc row, 1, Suc row, 5)
         (set_content (Suc row, 1) (Text (bullet @ '' '' @ note)) ws))"

text \<open>\<^verbatim>\<open>for col_idx in range(2, 2 + len(years))\<close> (src/api/extract.py).\<close>

fun year_widths_api :: "nat list \<Rightarrow> worksheet \<Rightarrow> worksheet" where
  "year_widths_api [] ws = ws"
| "year_widths_api (col_idx # cols) ws = year_widths_api cols (set_width col_idx 18 ws)"

text \<open>\<^verbatim>\<open>create_excel_workbook\<close> of src/api/extract.py.\<close>

definition create_excel_workbook_api :: "financial_record \<Rightarrow> workbook" where
  "create_excel_workbook_api rec =
     (let ws = new_worksheet;
          ws = ws\<lparr>title := ''Financial Data''\<rparr>;
          ws = set_content (1, 1)
                 (Text (''Financial Statement - ''
                    @ (case company_name rec of None \<Rightarrow> ''Unknown Company'' | Some n \<Rightarrow> n))) ws;
          ws = set_font (1, 1) title_font ws;
          ws = merge_cells (1, 1, 1, 5) ws;
          ws = set_content (2, 1)
                 (Text (''Currency: ''
                    @ (case currency rec of None \<Rightarrow> ''Unknown'' | Some c \<Rightarrow> c))) ws;
          ws = set_content (3, 1)
                 (Text (''Units: '' @ (case units rec of None \<Rightarrow> ''Actual'' | Some u \<Rightarrow> u))) ws;
          years = (case fiscal_years rec of None \<Rightarrow> [] | Some ys \<Rightarrow> ys);
          ws = set_content (5, 1) (Text ''Line Item'') ws;
          ws = set_fill (5, 1) header_fill ws;
          ws = set_font (5, 1) header_font ws;
          ws = set_border (5, 1) thin_border ws;
          ws = header_cells_api 2 years ws;
          data = (case financial_data rec of None \<Rightarrow> [] | Some d \<Rightarrow> d);
          (ws, row) = item_rows_api 6 financial_items_list data years ws;
          row = row + 2;
          ws = set_content (row, 1) (Text ''Notes & Assumptions:'') ws;
          ws = set_font (row, 1) bold_font ws;
          ws = note_rows_api row (case notes_list rec of None \<Rightarrow> [] | Some ns \<Rightarrow> ns) ws;
          ws = set_width 1 25 ws;
          ws = year_widths_api [2 ..< 2 + length years] ws
      in \<lparr>active = ws\<rparr>)"

section \<open>The model-assisted extractor (src/api/extract.py)\<close>












section \<open>The endpoint (src/app.py)\<close>










section \<open>Definitions used to state the properties\<close>

text \<open>The fixed vocabulary of line-item keys, and a record without the values filed
  under any other key.\<close>

definition vocabulary :: "string list" where
  "vocabulary = map fst financial_items_list"

definition drop_unrecognized :: "financial_record \<Rightarrow> financial_record" where
  "drop_unrecognized rec =
     rec\<lparr>financial_data :=
           map_option (filter (\<lambda>kv. fst kv \<in> set vocabulary)) (financial_data rec)\<rparr>"

text \<open>The cells the renderer is expected to write: a value with its number format, the marker
  of a missing value with its highlight, and a label.\<close>

definition lookup_value :: "line_item_values \<Rightarrow> string \<Rightarrow> string \<Rightarrow> rat option" where
  "lookup_value data key year =
     (case map_of data key of None \<Rightarrow> None | Some vs \<Rightarrow> map_of vs year)"

definition value_cell :: "rat \<Rightarrow> cell" where
  "value_cell v =
     new_cell\<lparr>content := Number v, number_format := ''#,##0.00'',
              cell_border := Some thin_border, cell_alignment := Some right_alignment\<rparr>"

definition missing_cell :: cell where
  "missing_cell =
     new_cell\<lparr>content := Text ''N/A'', cell_fill := Some missing_fill,
              cell_font := Some missing_font,
              cell_border := Some thin_border, cell_alignment := Some right_alignment\<rparr>"

definition label_cell :: "string \<Rightarrow> cell" where
  "label_cell label =
     new_cell\<lparr>content := Text label, cell_font := Some bold_font,
              cell_border := Some thin_border\<rparr>"

definition record_years :: "financial_record \<Rightarrow> string list" where
  "record_years rec = (case fiscal_years rec of None \<Rightarrow> [] | Some ys \<Rightarrow> ys)"

definition record_data :: "financial_record \<Rightarrow> line_item_values" where
  "record_data rec = (case financial_data rec of None \<Rightarrow> [] | Some d \<Rightarrow> d)"

definition example_record :: financial_record where
  "example_record =
     \<lparr>company_name = Some ''Unknown'', fiscal_years = Some [''2024'', ''2023''],
      financial_data = Some [(''revenue'', [(''2024'', 100)])],
      currency = Some ''USD'', units = Some ''Actual'', notes_list = Some []\<rparr>"









text \<open>
  A year label that starts at a position and is delimited by word boundaries: the four
  characters \<^verbatim>\<open>20dd\<close>, no word character before them and none after them; and all such
  labels of a text, from left to right.
\<close>

fun year_at :: "char option \<Rightarrow> string \<Rightarrow> bool" where
  "year_at prev (a # b # c # d # rest) =
     (a = CHR ''2'' \<and> b = CHR ''0'' \<and> is_digit c \<and> is_digit d
      \<and> (case prev of None \<Rightarrow> True | Some p \<Rightarrow> \<not> is_word p)
      \<and> (case rest of [] \<Rightarrow> True | e # es \<Rightarrow> \<not> is_word e))"
| "year_at prev s = False"

fun bounded_years_from :: "char option \<Rightarrow> string \<Rightarrow> string list" where
  "bounded_years_from prev [] = []"
| "bounded_years_from prev (c # cs) =
     (if year_at prev (c # cs) then [take 4 (c # cs)] else [])
       @ bounded_years_from (Some c) cs"

definition bounded_years :: "string \<Rightarrow> string list" where
  "bounded_years document_text = bounded_years_from None document_text"

text \<open>
  The fiscal years in the words of claim C3: all substrings that match \<^verbatim>\<open>20\d\d\<close>,
  without duplicates, in descending order, at most three of them, and the two default
  years when there is none.
\<close>

fun year_substrings :: "string \<Rightarrow> string list" where
  "year_substrings [] = []"
| "year_substrings (c # cs) =
     (case c # cs of
        a # b # c' # d # rest \<Rightarrow>
          if a = CHR ''2'' \<and> b = CHR ''0'' \<and> is_digit c' \<and> is_digit d
          then [[a, b, c', d]] else []
      | _ \<Rightarrow> [])
       @ year_substrings cs"

definition claimed_fiscal_years :: "string \<Rightarrow> string list" where
  "claimed_fiscal_years document_text =
     (let years = rev (sort (remdups (year_substrings document_text))) in
      if years = [] then [''2024'', ''2023''] else take 3 years)"

text \<open>The values the scan leaves for one line item, given its patterns.\<close>

definition scanned_values :: "regex list \<Rightarrow> string \<Rightarrow> year_values" where
  "scanned_values patterns document_text =
     (case scan_patterns patterns document_text (extract_fiscal_years document_text) [] of
        Inl e \<Rightarrow> []
      | Inr d \<Rightarrow> d)"

text \<open>The document of the scenario of claim C2: a line with the years, and the revenue
  line.\<close>

definition scenario_document :: string where
  "scenario_document = ''2024 2023'' @ [newline] @ ''Revenue from operations 1,000 900''"

text \<open>A document in which a later revenue pattern (\<^verbatim>\<open>sales\<close>) is found in the first line
  and the first revenue pattern in the second.\<close>

definition mixed_document :: string where
  "mixed_document = ''Sales 5'' @ [newline] @ ''Revenue from operations 1,000 900''"

text \<open>
  A line at which the scan of a pattern stops: the pattern is found in it and it holds a
  number. The line one pattern stops at in a document, if any, and the lines the patterns
  of one line item stop at, in the order of the patterns.
\<close>

definition hit :: "regex \<Rightarrow> string \<Rightarrow> bool" where
  "hit pattern line = (re_search pattern line \<noteq> None \<and> re_findall number_pattern line \<noteq> [])"

definition hit_line :: "regex \<Rightarrow> string \<Rightarrow> string option" where
  "hit_line pattern document_text = find (hit pattern) (split_lines document_text)"

definition item_hit_lines :: "regex list \<Rightarrow> string \<Rightarrow> string list" where
  "item_hit_lines patterns document_text =
     List.map_filter (\<lambda>pattern. hit_line pattern document_text) patterns"

text \<open>The patterns of a line item, by its key.\<close>

definition item_patterns :: "string \<Rightarrow> regex list" where
  "item_patterns key = (case map_of line_items key of None \<Rightarrow> [] | Some patterns \<Rightarrow> patterns)"

text \<open>The number the j-th token of a line denotes, when there is such a token and it
  converts.\<close>

definition positional_value :: "string list \<Rightarrow> nat \<Rightarrow> rat option" where
  "positional_value numbers j =
     (if j < length numbers then
        (case py_float (replace_char (CHR '','') [] (numbers ! j)) of
           Inl e \<Rightarrow> None
         | Inr v \<Rightarrow> Some v)
      else None)"

text \<open>
  The values of a line item in the words of claim C1: the earliest pattern that is found
  in any line decides, no further pattern is scanned, and the first line in which that
  pattern is found gives the values.
\<close>

definition claimed_item_values :: "regex list \<Rightarrow> string \<Rightarrow> year_values" where
  "claimed_item_values patterns document_text =
     (let lines = split_lines document_text in
      case find (\<lambda>pattern. list_ex (\<lambda>line. re_search pattern line \<noteq> None) lines) patterns of
        None \<Rightarrow> []
      | Some pattern \<Rightarrow>
          (case find (\<lambda>line. re_search pattern line \<noteq> None) lines of
             None \<Rightarrow> []
           | Some line \<Rightarrow>
               (case assign_years 0 (extract_fiscal_years document_text)
                       (re_findall number_pattern line) [] of
                  Inl e \<Rightarrow> []
                | Inr d \<Rightarrow> d)))"

text \<open>The line of the scenario of claim C2, and a document in which an earlier line with the
  same label holds other numbers.\<close>

definition revenue_line :: string where
  "revenue_line = ''Revenue from operations 1,000 900''"

definition two_revenue_lines :: string where
  "two_revenue_lines = ''Revenue from operations 7 8'' @ [newline] @ revenue_line"

text \<open>A document whose first line holds a label and no number.\<close>

definition heading_document :: string where
  "heading_document = ''Total assets'' @ [newline] @ ''Total assets 500 400''"

section \<open>The two renderers\<close>

lemma header_cells_api_eq: "header_cells_api col years ws = header_cells col years ws"
  by (induction years arbitrary: col ws) simp_all

lemma year_cells_api_eq:
  "year_cells_api row col key data years ws = year_cells row col key data years ws"
  by (induction years arbitrary: col ws) (simp_all add: year_cell_api_def year_cell_def)

lemma item_rows_api_eq:
  "item_rows_api row items data years ws = item_rows row items data years ws"
  by (induction items arbitrary: row ws) (simp_all add: year_cells_api_eq)

lemma note_rows_api_eq: "note_rows_api row ns ws = note_rows row ns ws"
  by (induction ns arbitrary: row ws) simp_all

lemma year_widths_api_eq: "year_widths_api cols ws = year_widths cols ws"
  by (induction cols arbitrary: ws) simp_all

text \<open>
  Claim C9. The renderer of src/api/extract.py and the renderer of src/app.py build the
  same workbook from every financial record: the same cells with the same values and
  styles, the same merged ranges and the same column widths.
\<close>

theorem renderers_agree: "create_excel_workbook_api rec = create_excel_workbook rec"
  unfolding create_excel_workbook_api_def create_excel_workbook_def
  by (simp only: header_cells_api_eq item_rows_api_eq note_rows_api_eq year_widths_api_eq)

section \<open>Keys outside the vocabulary\<close>

lemma map_of_filter_key:
  "map_of (filter (\<lambda>kv. fst kv \<in> V) data) key = (if key \<in> V then map_of data key else None)"
  by (induction data) auto

lemma year_cell_filter:
  "key \<in> V \<Longrightarrow>
   year_cell rc key year (filter (\<lambda>kv. fst kv \<in> V) data) ws = year_cell rc key year data ws"
  by (simp add: year_cell_def map_of_filter_key)

lemma year_cells_filter:
  "key \<in> V \<Longrightarrow>
   year_cells row col key (filter (\<lambda>kv. fst kv \<in> V) data) years ws
     = year_cells row col key data years ws"
  by (induction years arbitrary: col ws) (simp_all add: year_cell_filter)

lemma item_rows_filter:
  "fst ` set items \<subseteq> V \<Longrightarrow>
   item_rows row items (filter (\<lambda>kv. fst kv \<in> V) data) years ws
     = item_rows row items data years ws"
  by (induction items arbitrary: row ws) (simp_all add: year_cells_filter)

lemma item_rows_vocabulary:
  "item_rows row financial_items_list (filter (\<lambda>kv. fst kv \<in> set vocabulary) data) years ws
     = item_rows row financial_items_list data years ws"
  by (rule item_rows_filter) (simp add: vocabulary_def)

text \<open>
  Claim C6. Rendering a financial record gives the same workbook as rendering it with
  every key outside the fixed vocabulary removed from its financial data, in both
  renderers: such keys are never read, and the renderer has no failing branch.
\<close>

theorem unrecognized_keys_dropped:
  "create_excel_workbook (drop_unrecognized rec) = create_excel_workbook rec
   \<and> create_excel_workbook_api (drop_unrecognized rec) = create_excel_workbook_api rec"
proof -
  have "create_excel_workbook (drop_unrecognized rec) = create_excel_workbook rec"
    unfolding create_excel_workbook_def drop_unrecognized_def
    by (cases "financial_data rec") (simp_all add: item_rows_vocabulary)
  moreover
  have "create_excel_workbook_api (drop_unrecognized rec) = create_excel_workbook_api rec"
    unfolding create_excel_workbook_api_def drop_unrecognized_def
    by (cases "financial_data rec") (simp_all add: item_rows_vocabulary item_rows_api_eq)
  ultimately show ?thesis by simp
qed

section \<open>The rows of the line items\<close>

lemmas cell_ops = set_content_def set_font_def set_fill_def set_border_def
  set_alignment_def set_number_format_def merge_cells_def set_width_def get_cell_def


lemma cells_set_content:
  "cells (set_content rc v ws) rc' = (if rc' = rc then Some ((get_cell rc ws)\<lparr>content := v\<rparr>) else cells ws rc')"
  by (simp add: set_content_def)

lemma cells_set_font:
  "cells (set_font rc f ws) rc' = (if rc' = rc then Some ((get_cell rc ws)\<lparr>cell_font := Some f\<rparr>) else cells ws rc')"
  by (simp add: set_font_def)

lemma cells_set_fill:
  "cells (set_fill rc f ws) rc' = (if rc' = rc then Some ((get_cell rc ws)\<lparr>cell_fill := Some f\<rparr>) else cells ws rc')"
  by (simp add: set_fill_def)

lemma cells_set_border:
  "cells (set_border rc b ws) rc' = (if rc' = rc then Some ((get_cell rc ws)\<lparr>cell_border := Some b\<rparr>) else cells ws rc')"
  by (simp add: set_border_def)

lemma cells_set_alignment:
  "cells (set_alignment rc a ws) rc' = (if rc' = rc then Some ((get_cell rc ws)\<lparr>cell_alignment := Some a\<rparr>) else cells ws rc')"
  by (simp add: set_alignment_def)

lemma cells_set_number_format:
  "cells (set_number_format rc f ws) rc' = (if rc' = rc then Some ((get_cell rc ws)\<lparr>number_format := f\<rparr>) else cells ws rc')"
  by (simp add: set_number_format_def)

lemma cells_merge_cells: "cells (merge_cells rng ws) = cells ws"
  by (simp add: merge_cells_def)

lemma cells_set_width: "cells (set_width col w ws) = cells ws"
  by (simp add: set_width_def)

lemmas cells_ops = cells_set_content cells_set_font cells_set_fill cells_set_border
  cells_set_alignment cells_set_number_format cells_merge_cells cells_set_width

lemma label_writes_frame:
  "rc' \<noteq> rc \<Longrightarrow>
   cells (set_border rc thin_border (set_font rc bold_font (set_content rc (Text label) ws))) rc'
     = cells ws rc'"
  by (simp add: cells_ops)

lemma header_cells_frame:
  "r \<noteq> 5 \<Longrightarrow> cells (header_cells col years ws) (r, c) = cells ws (r, c)"
  by (induction years arbitrary: col ws) (simp_all add: cells_ops)

lemma year_cell_frame:
  "rc' \<noteq> rc \<Longrightarrow> cells (year_cell rc key year data ws) rc' = cells ws rc'"
  by (simp add: year_cell_def cell_ops split: option.splits)

lemma year_cell_fresh:
  "cells ws rc = None \<Longrightarrow>
   cells (year_cell rc key year data ws) rc
     = Some (case lookup_value data key year of None \<Rightarrow> missing_cell | Some v \<Rightarrow> value_cell v)"
  by (simp add: year_cell_def cell_ops lookup_value_def missing_cell_def value_cell_def
      split: option.splits)

lemma year_cells_frame:
  "r \<noteq> row \<or> c < col \<or> col + length years \<le> c \<Longrightarrow>
   cells (year_cells row col key data years ws) (r, c) = cells ws (r, c)"
proof (induction years arbitrary: col ws)
  case Nil
  show ?case by simp
next
  case (Cons year years)
  have "cells (year_cells row (Suc col) key data years (year_cell (row, col) key year data ws)) (r, c)
        = cells (year_cell (row, col) key year data ws) (r, c)"
    using Cons.prems by (intro Cons.IH) auto
  also have "\<dots> = cells ws (r, c)"
    using Cons.prems by (intro year_cell_frame) auto
  finally show ?case by simp
qed

lemma year_cells_fresh:
  "j < length years \<Longrightarrow> cells ws (row, col + j) = None \<Longrightarrow>
   cells (year_cells row col key data years ws) (row, col + j)
     = Some (case lookup_value data key (years ! j) of
               None \<Rightarrow> missing_cell | Some v \<Rightarrow> value_cell v)"
proof (induction years arbitrary: col ws j)
  case Nil
  then show ?case by simp
next
  case (Cons year years)
  show ?case
  proof (cases j)
    case 0
    have "cells (year_cells row (Suc col) key data years (year_cell (row, col) key year data ws)) (row, col)
          = cells (year_cell (row, col) key year data ws) (row, col)"
      by (intro year_cells_frame) simp
    then show ?thesis using 0 Cons.prems by (simp add: year_cell_fresh)
  next
    case (Suc k)
    have "cells (year_cell (row, col) key year data ws) (row, Suc col + k) = None"
      using Cons.prems Suc by (simp add: year_cell_frame)
    then have "cells (year_cells row (Suc col) key data years (year_cell (row, col) key year data ws))
                 (row, Suc col + k)
               = Some (case lookup_value data key (years ! k) of
                         None \<Rightarrow> missing_cell | Some v \<Rightarrow> value_cell v)"
      using Cons.prems Suc by (intro Cons.IH) auto
    then show ?thesis using Suc by simp
  qed
qed

lemma item_rows_row: "snd (item_rows row items data years ws) = row + length items"
  by (induction items arbitrary: row ws) simp_all

lemma item_rows_frame:
  "r < row \<or> row + length items \<le> r \<Longrightarrow>
   cells (fst (item_rows row items data years ws)) (r, c) = cells ws (r, c)"
proof (induction items arbitrary: row ws)
  case Nil
  show ?case by simp
next
  case (Cons item items)
  let ?ws0 = "set_border (row, 1) thin_border
                (set_font (row, 1) bold_font (set_content (row, 1) (Text (snd item)) ws))"
  let ?ws1 = "year_cells row 2 (fst item) data years ?ws0"
  have r: "r \<noteq> row" using Cons.prems by auto
  have "cells (fst (item_rows (Suc row) items data years ?ws1)) (r, c) = cells ?ws1 (r, c)"
    using Cons.prems by (intro Cons.IH) auto
  also have "\<dots> = cells ?ws0 (r, c)"
    using r by (intro year_cells_frame) simp
  also have "\<dots> = cells ws (r, c)"
    using r by (intro label_writes_frame) simp
  finally show ?case by simp
qed

lemma item_row_label:
  "cells ws (row, 1) = None \<Longrightarrow>
   cells (year_cells row 2 (fst item) data years
            (set_border (row, 1) thin_border
              (set_font (row, 1) bold_font
                (set_content (row, 1) (Text (snd item)) ws)))) (row, 1)
     = Some (label_cell (snd item))"
  by (simp add: year_cells_frame cells_ops get_cell_def label_cell_def)

lemma item_row_data:
  assumes "j < length years" and "cells ws (row, 2 + j) = None"
  shows "cells (year_cells row 2 (fst item) data years
            (set_border (row, 1) thin_border
              (set_font (row, 1) bold_font
                (set_content (row, 1) (Text (snd item)) ws)))) (row, 2 + j)
     = Some (case lookup_value data (fst item) (years ! j) of
               None \<Rightarrow> missing_cell | Some v \<Rightarrow> value_cell v)"
proof (rule year_cells_fresh [OF assms(1)])
  show "cells (set_border (row, 1) thin_border
          (set_font (row, 1) bold_font
            (set_content (row, 1) (Text (snd item)) ws))) (row, 2 + j) = None"
    using assms(2) by (simp add: label_writes_frame)
qed

lemma item_rows_cells:
  assumes "i < length items" and "\<And>r c. row \<le> r \<Longrightarrow> cells ws (r, c) = None"
  shows "cells (fst (item_rows row items data years ws)) (row + i, 1)
           = Some (label_cell (snd (items ! i)))
         \<and> (\<forall>j < length years.
              cells (fst (item_rows row items data years ws)) (row + i, 2 + j)
                = Some (case lookup_value data (fst (items ! i)) (years ! j) of
                          None \<Rightarrow> missing_cell | Some v \<Rightarrow> value_cell v))"
  using assms
proof (induction items arbitrary: row ws i)
  case Nil
  then show ?case by simp
next
  case (Cons item items)
  let ?ws1 = "year_cells row 2 (fst item) data years
                (set_border (row, 1) thin_border
                  (set_font (row, 1) bold_font
                    (set_content (row, 1) (Text (snd item)) ws)))"
  show ?case
  proof (cases i)
    case 0
    have frame: "\<And>c. cells (fst (item_rows (Suc row) items data years ?ws1)) (row, c)
                   = cells ?ws1 (row, c)"
      by (intro item_rows_frame) simp
    have "cells ?ws1 (row, 1) = Some (label_cell (snd item))"
      using Cons.prems(2) by (intro item_row_label) simp
    moreover have "\<forall>j < length years. cells ?ws1 (row, 2 + j)
        = Some (case lookup_value data (fst item) (years ! j) of
                  None \<Rightarrow> missing_cell | Some v \<Rightarrow> value_cell v)"
    proof (intro allI impI)
      fix j assume j: "j < length years"
      have "cells ws (row, 2 + j) = None" using Cons.prems(2) by simp
      from item_row_data [OF j this] show "cells ?ws1 (row, 2 + j)
        = Some (case lookup_value data (fst item) (years ! j) of
                  None \<Rightarrow> missing_cell | Some v \<Rightarrow> value_cell v)" .
    qed
    ultimately show ?thesis using 0 frame by simp
  next
    case (Suc k)
    have fresh: "\<And>r c. Suc row \<le> r \<Longrightarrow> cells ?ws1 (r, c) = None"
      using Cons.prems(2) by (simp add: year_cells_frame label_writes_frame)
    have "k < length items" using Cons.prems(1) Suc by simp
    from Cons.IH [of k "Suc row" ?ws1, OF this fresh] show ?thesis using Suc by simp
  qed
qed

lemma note_rows_frame:
  "r \<le> row \<Longrightarrow> cells (note_rows row ns ws) (r, c) = cells ws (r, c)"
  by (induction ns arbitrary: row ws) (simp_all add: cells_ops)

lemma year_widths_cells: "cells (year_widths cols ws) = cells ws"
  by (induction cols arbitrary: ws) (simp_all add: cells_ops)

lemma length_financial_items_list: "length financial_items_list = 11"
  by (simp add: financial_items_list_def)

text \<open>
  Claim C5. The renderer writes one row per line item, in the order of the fixed list
  of 11 keys, from row 6 on: column A holds the label, and the column of each fiscal year
  holds the number with the format \<^verbatim>\<open>#,##0.00\<close> when the record has a value for the
  item and the year, and otherwise the marker \<^verbatim>\<open>N/A\<close> with the highlight fill and font.
\<close>

theorem rendered_line_items:
  assumes "i < length financial_items_list"
  shows "cells (active (create_excel_workbook rec)) (6 + i, 1)
           = Some (label_cell (snd (financial_items_list ! i)))
         \<and> (\<forall>j < length (record_years rec).
              cells (active (create_excel_workbook rec)) (6 + i, 2 + j)
                = Some (case lookup_value (record_data rec) (fst (financial_items_list ! i))
                               (record_years rec ! j) of
                          None \<Rightarrow> missing_cell
                        | Some v \<Rightarrow> value_cell v))"
proof -
  define ws0 where "ws0 =
    header_cells 2 (record_years rec)
      (set_border (5, 1) thin_border
        (set_font (5, 1) header_font
          (set_fill (5, 1) header_fill
            (set_content (5, 1) (Text ''Line Item'')
              (set_content (3, 1)
                 (Text (''Units: '' @ (case units rec of None \<Rightarrow> ''Actual'' | Some u \<Rightarrow> u)))
                (set_content (2, 1)
                   (Text (''Currency: ''
                      @ (case currency rec of None \<Rightarrow> ''Unknown'' | Some c \<Rightarrow> c)))
                  (merge_cells (1, 1, 1, 5)
                    (set_font (1, 1) title_font
                      (set_content (1, 1)
                         (Text (''Financial Statement - ''
                            @ (case company_name rec of
                                 None \<Rightarrow> ''Unknown Company'' | Some n \<Rightarrow> n)))
                        (new_worksheet\<lparr>title := ''Financial Data''\<rparr>))))))))))"
  define rows where
    "rows = item_rows 6 financial_items_list (record_data rec) (record_years rec) ws0"
  have fresh: "\<And>r c. 6 \<le> r \<Longrightarrow> cells ws0 (r, c) = None"
    unfolding ws0_def by (simp add: header_cells_frame cells_ops new_worksheet_def)
  have row: "snd rows = 17"
    unfolding rows_def by (simp add: item_rows_row length_financial_items_list)
  have unfold: "active (create_excel_workbook rec)
      = year_widths [2 ..< 2 + length (record_years rec)]
          (set_width 1 25
            (note_rows (snd rows + 2)
               (case notes_list rec of None \<Rightarrow> [] | Some ns \<Rightarrow> ns)
              (set_font (snd rows + 2, 1) bold_font
                (set_content (snd rows + 2, 1) (Text ''Notes & Assumptions:'') (fst rows)))))"
    unfolding create_excel_workbook_def rows_def ws0_def record_years_def record_data_def
    by (simp add: Let_def split_beta)
  have final: "cells (active (create_excel_workbook rec)) (6 + i, c) = cells (fst rows) (6 + i, c)"
    for c
  proof -
    have "6 + i < 19" using assms by (simp add: length_financial_items_list)
    then show ?thesis
      unfolding unfold row
      by (simp add: year_widths_cells cells_set_width note_rows_frame cells_set_font
          cells_set_content)
  qed
  show ?thesis
    unfolding final rows_def
    using item_rows_cells [OF assms, of 6 ws0] fresh by simp
qed

text \<open>The record with the years 2024 and 2023 and the revenue 100.0 for 2024 only: the
  revenue row holds the number under 2024 and the marker under 2023.\<close>

theorem rendered_line_items_witness:
  "0 < length financial_items_list
   \<and> cells (active (create_excel_workbook example_record)) (6, 1) = Some (label_cell ''Revenue'')
   \<and> cells (active (create_excel_workbook example_record)) (6, 2) = Some (value_cell 100)
   \<and> cells (active (create_excel_workbook example_record)) (6, 3) = Some missing_cell"
proof -
  have i: "0 < length financial_items_list"
    by (simp add: financial_items_list_def)
  have years: "record_years example_record = [''2024'', ''2023'']"
    by (simp add: record_years_def example_record_def)
  have first: "financial_items_list ! 0 = (''revenue'', ''Revenue'')"
    by (simp add: financial_items_list_def)
  have v0: "lookup_value (record_data example_record) ''revenue'' ''2024'' = Some 100"
    by (simp add: lookup_value_def record_data_def example_record_def)
  have v1: "lookup_value (record_data example_record) ''revenue'' ''2023'' = None"
    by (simp add: lookup_value_def record_data_def example_record_def)
  note r = rendered_line_items [OF i, of example_record]
  have "cells (active (create_excel_workbook example_record)) (6, 1) = Some (label_cell ''Revenue'')"
    using r first by simp
  moreover have "cells (active (create_excel_workbook example_record)) (6, 2) = Some (value_cell 100)"
    using r [THEN conjunct2, rule_format, of 0] first years v0 by simp
  moreover have "cells (active (create_excel_workbook example_record)) (6, 3) = Some missing_cell"
    using r [THEN conjunct2, rule_format, of 1] first years v1 by simp
  ultimately show ?thesis using i by simp
qed

section \<open>The heuristic extractor always returns a record\<close>

lemma try_convert_and_store_returns:
  "\<exists>d'. try_convert_and_store year token d = Inr d'"
  by (simp add: try_convert_and_store_def split: sum.splits)

lemma assign_years_returns: "\<exists>d'. assign_years j years numbers d = Inr d'"
proof (induction years arbitrary: j d)
  case Nil
  show ?case by simp
next
  case (Cons year years)
  obtain d1 where d1: "try_convert_and_store year (numbers ! j) d = Inr d1"
    using try_convert_and_store_returns by blast
  show ?case using Cons.IH [of "Suc j" d1] Cons.IH [of "Suc j" d] d1 by simp
qed

lemma scan_lines_returns: "\<exists>d'. scan_lines pattern lines years d = Inr d'"
  by (induction lines) (simp_all add: assign_years_returns Let_def)

lemma scan_patterns_returns: "\<exists>d'. scan_patterns patterns document_text years d = Inr d'"
proof (induction patterns arbitrary: d)
  case Nil
  show ?case by simp
next
  case (Cons pattern patterns)
  obtain d1 where "scan_lines pattern (split_lines document_text) years d = Inr d1"
    using scan_lines_returns by blast
  then show ?case using Cons.IH [of d1] by simp
qed

lemma scan_items_returns: "\<exists>fd'. scan_items items document_text years fd = Inr fd'"
proof (induction items arbitrary: fd)
  case Nil
  show ?case by simp
next
  case (Cons item items)
  obtain d where "scan_patterns (snd item) document_text years [] = Inr d"
    using scan_patterns_returns by blast
  then show ?case using Cons.IH [of "AList.update (fst item) d fd"] by simp
qed

lemma extract_body_returns: "\<exists>rec. extract_body document_text = Inr rec"
proof -
  obtain fd where
    "scan_items line_items document_text (extract_fiscal_years document_text) [] = Inr fd"
    using scan_items_returns by blast
  then show ?thesis by (simp add: extract_body_def Let_def)
qed

lemma extractor_returns_record:
  "\<exists>rec. extract_financial_data_with_patterns document_text = (Some rec, None)"
proof -
  obtain rec where "extract_body document_text = Inr rec"
    using extract_body_returns by blast
  then show ?thesis by (simp add: extract_financial_data_with_patterns_def)
qed

text \<open>
  Claim C10. For every document text the heuristic extractor returns a record and no
  error message: the one step that can raise, the conversion of a token to a number, is
  inside its own \<^verbatim>\<open>try\<close>, and when the conversion raises the values are left as they
  were.
\<close>

theorem heuristic_extractor_total:
  "(\<exists>rec. extract_financial_data_with_patterns document_text = (Some rec, None))
   \<and> (\<forall>e. convert_and_store year token d = Inl e
          \<longrightarrow> try_convert_and_store year token d = Inr d)"
  by (simp add: extractor_returns_record try_convert_and_store_def)

lemma bare_comma_document:
  "extract_body ''sales , 5'' =
     Inr \<lparr>company_name = Some ''Unknown'', fiscal_years = Some [''2024'', ''2023''],
          financial_data = Some [(''revenue'', [(''2023'', 5)])],
          currency = Some ''USD'', units = Some ''Actual'', notes_list = Some pattern_notes\<rparr>"
  by code_simp

lemma bare_comma_token: "convert_and_store ''2024'' '','' [] = Inl (ValueError [])"
  by code_simp

text \<open>A document whose first token is a bare comma: the record comes back, and the
  first year has no value.\<close>

theorem heuristic_extractor_total_witness:
  "(\<exists>rec. extract_financial_data_with_patterns ''sales , 5'' = (Some rec, None)
          \<and> financial_data rec = Some [(''revenue'', [(''2023'', 5)])])
   \<and> convert_and_store ''2024'' '','' [] = Inl (ValueError [])
   \<and> try_convert_and_store ''2024'' '','' [] = Inr []"
  using heuristic_extractor_total [of "''sales , 5''" "''2024''" "'',''" "[]"]
  by (simp add: bare_comma_token extract_financial_data_with_patterns_def bare_comma_document)

section \<open>Documents that are too short\<close>











section \<open>The outcomes of the model-assisted extractor\<close>











section \<open>The fiscal years\<close>

lemma is_word_digit: "is_digit c \<Longrightarrow> is_word c"
  by (simp add: is_word_def)

lemma is_digit_two: "is_digit (CHR ''2'')" and is_digit_zero: "is_digit (CHR ''0'')"
  by (simp_all add: is_digit_def)

lemma matches_year_pattern:
  "matches year_pattern (prev, s)
     = (if year_at prev s then [(Some (s ! 3), drop 4 s)] else [])"
  by (cases "(prev, s)" rule: year_at.cases)
     (auto simp add: year_pattern_def seqs_def lit_def word_before_def word_after_def
        is_word_digit is_digit_two is_digit_zero split: option.splits list.splits)

lemma year_at_length: "year_at prev s \<Longrightarrow> 4 \<le> length s"
  by (cases "(prev, s)" rule: year_at.cases) simp_all

lemma year_at_word_before: "is_word p \<Longrightarrow> \<not> year_at (Some p) s"
  by (cases "(Some p, s)" rule: year_at.cases) simp_all

lemma year_at_words:
  "year_at prev (c # cs) \<Longrightarrow> is_word c \<and> (\<forall>x \<in> set (take 3 cs). is_word x)"
  by (cases "(prev, c # cs)" rule: year_at.cases)
     (auto simp add: is_word_digit is_digit_two is_digit_zero)

lemma findall_year_pattern:
  "k = 0 \<or> ((\<exists>p. prev = Some p \<and> is_word p) \<and> k \<le> length s \<and> (\<forall>x \<in> set (take k s). is_word x)) \<Longrightarrow>
   findall_from year_pattern k prev s = bounded_years_from prev s"
proof (induction s arbitrary: k prev)
  case Nil
  show ?case by simp
next
  case (Cons c cs)
  show ?case
  proof (cases k)
    case 0
    show ?thesis
    proof (cases "year_at prev (c # cs)")
      case False
      then show ?thesis using 0 Cons.IH [of 0 "Some c"]
        by (simp add: matches_year_pattern)
    next
      case True
      have len: "4 \<le> length (c # cs)" using True by (rule year_at_length)
      have w: "is_word c \<and> (\<forall>x \<in> set (take 3 cs). is_word x)"
        using True by (rule year_at_words)
      have "findall_from year_pattern 3 (Some c) cs = bounded_years_from (Some c) cs"
        using len w by (intro Cons.IH) auto
      moreover have "length (c # cs) - length (drop 4 (c # cs)) - 1 = 3"
        using len by simp
      moreover have "matched_text (c # cs, drop 4 (c # cs)) = take 4 (c # cs)"
        using len by (simp add: matched_text_def)
      ultimately show ?thesis using 0 True
        by (simp add: matches_year_pattern del: drop_Suc_Cons take_Suc_Cons)
    qed
  next
    case (Suc j)
    with Cons.prems obtain p where p: "prev = Some p" "is_word p"
      and j: "Suc j \<le> length (c # cs)" and ws: "\<forall>x \<in> set (take (Suc j) (c # cs)). is_word x"
      by auto
    have "findall_from year_pattern j (Some c) cs = bounded_years_from (Some c) cs"
      using j ws by (intro Cons.IH) auto
    then show ?thesis using Suc p by (simp add: year_at_word_before)
  qed
qed

lemma findall_years: "re_findall year_pattern document_text = bounded_years document_text"
  by (simp add: re_findall_def bounded_years_def findall_year_pattern)

lemma bounded_years_substrings:
  "set (bounded_years_from prev s) \<subseteq> set (year_substrings s)"
proof (induction s arbitrary: prev)
  case Nil
  show ?case by simp
next
  case (Cons c cs)
  have "year_at prev (c # cs) \<Longrightarrow> take 4 (c # cs) \<in> set (year_substrings (c # cs))"
    by (cases "(prev, c # cs)" rule: year_at.cases) auto
  then show ?case using Cons.IH [of "Some c"] by auto
qed

lemma sort_remdups_Nil: "(sort (remdups xs) = []) = (xs = [])"
  by (metis set_empty set_remdups set_sort)

lemma found_years_strict: "sorted_wrt (\<lambda>a b. b < a) (found_years document_text)"
proof -
  have "sorted_wrt (<) (sort (remdups (re_findall year_pattern document_text)))"
    by (simp add: strict_sorted_iff)
  then show ?thesis
    by (simp add: found_years_def sorted_wrt_rev)
qed

lemma extract_fiscal_years_strict:
  "sorted_wrt (\<lambda>a b. b < a) (extract_fiscal_years document_text)"
proof -
  have "sorted_wrt (\<lambda>a b. b < a) [''2024'', ''2023'']"
    by (simp add: less_list_code)
  then show ?thesis
    using found_years_strict [of document_text]
    by (simp add: extract_fiscal_years_def Let_def sorted_wrt_take)
qed

lemma extract_fiscal_years_distinct: "distinct (extract_fiscal_years document_text)"
  by (simp add: extract_fiscal_years_def Let_def found_years_def)

text \<open>
  Claim C3, amended. The fiscal years are the substrings \<^verbatim>\<open>20dd\<close> of the text that are
  delimited by word boundaries, without duplicates, in descending order, and at most
  three of them, or the two default years when there is no such substring. The list has
  at most three entries, is strictly descending and has no duplicates; and when the text
  has no substring \<^verbatim>\<open>20dd\<close> at all, it is exactly 2024, 2023.
\<close>

theorem fiscal_years_invariant:
  "extract_fiscal_years document_text
     = take 3 (if bounded_years document_text = [] then [''2024'', ''2023'']
               else rev (sort (remdups (bounded_years document_text))))
   \<and> length (extract_fiscal_years document_text) \<le> 3
   \<and> sorted_wrt (\<lambda>a b. b < a) (extract_fiscal_years document_text)
   \<and> distinct (extract_fiscal_years document_text)
   \<and> (year_substrings document_text = [] \<longrightarrow>
        extract_fiscal_years document_text = [''2024'', ''2023''])"
proof -
  have eq: "extract_fiscal_years document_text
     = take 3 (if bounded_years document_text = [] then [''2024'', ''2023'']
               else rev (sort (remdups (bounded_years document_text))))"
    by (simp add: extract_fiscal_years_def found_years_def findall_years Let_def
        sort_remdups_Nil)
  have "year_substrings document_text = [] \<Longrightarrow> bounded_years document_text = []"
    using bounded_years_substrings [of None document_text] by (simp add: bounded_years_def)
  then have "year_substrings document_text = [] \<longrightarrow>
        extract_fiscal_years document_text = [''2024'', ''2023'']"
    using eq by simp
  moreover have "length (extract_fiscal_years document_text) \<le> 3"
    by (simp add: extract_fiscal_years_def Let_def)
  ultimately show ?thesis
    using eq extract_fiscal_years_strict extract_fiscal_years_distinct by blast
qed

lemma fy_example: "extract_fiscal_years ''FY2024 and 2023, 2025 2022 x2021'' = [''2025'', ''2023'', ''2022'']"
  by code_simp

lemma no_years_example: "year_substrings ''no years here'' = []"
  by code_simp

text \<open>A text without a year has the default years; a text with five years, one of them
  not delimited, has the three latest delimited ones.\<close>

theorem fiscal_years_invariant_witness:
  "year_substrings ''no years here'' = []
   \<and> extract_fiscal_years ''no years here'' = [''2024'', ''2023'']
   \<and> extract_fiscal_years ''FY2024 and 2023, 2025 2022 x2021'' = [''2025'', ''2023'', ''2022'']"
proof -
  have "year_substrings ''no years here'' = [] \<longrightarrow>
        extract_fiscal_years ''no years here'' = [''2024'', ''2023'']"
    using fiscal_years_invariant [of "''no years here''"] by blast
  then show ?thesis using no_years_example fy_example by simp
qed

text \<open>
  Claim C3 as stated fails: in \<^verbatim>\<open>FY2024\<close> the substring 2024 matches \<^verbatim>\<open>20\d\d\<close>, so the
  claimed list is 2024 alone, but the year follows a letter, is not collected, and the
  extractor returns the default years.
\<close>

theorem fiscal_years_ignore_unbounded_matches:
  "year_substrings ''FY2024'' = [''2024'']
   \<and> claimed_fiscal_years ''FY2024'' = [''2024'']
   \<and> extract_fiscal_years ''FY2024'' = [''2024'', ''2023'']"
  by code_simp

section \<open>Line items without values\<close>

lemma update_new_key: "k \<notin> fst ` set al \<Longrightarrow> AList.update k v al = al @ [(k, v)]"
  by (induction al) auto

lemma scan_items_map:
  "distinct (map fst items) \<Longrightarrow> fst ` set items \<inter> fst ` set fd = {} \<Longrightarrow>
   scan_items items document_text years fd
     = Inr (fd @ map (\<lambda>item. (fst item,
                        case scan_patterns (snd item) document_text years [] of
                          Inl e \<Rightarrow> [] | Inr d \<Rightarrow> d)) items)"
proof (induction items arbitrary: fd)
  case Nil
  show ?case by simp
next
  case (Cons item items)
  obtain d where d: "scan_patterns (snd item) document_text years [] = Inr d"
    using scan_patterns_returns by blast
  have new: "fst item \<notin> fst ` set fd" using Cons.prems(2) by auto
  have "fst ` set items \<inter> fst ` set (fd @ [(fst item, d)]) = {}"
    using Cons.prems by auto
  with Cons.IH [of "fd @ [(fst item, d)]"] Cons.prems(1) show ?case
    by (simp add: d update_new_key [OF new])
qed

lemma distinct_line_items: "distinct (map fst line_items)"
  by (simp add: line_items_def)

lemma extract_body_financial_data:
  "\<exists>rec. extract_body document_text = Inr rec
     \<and> financial_data rec
         = Some (remove_empty_items
                   (map (\<lambda>item. (fst item, scanned_values (snd item) document_text))
                      line_items))"
  using scan_items_map [OF distinct_line_items, of "[]" document_text
      "extract_fiscal_years document_text"]
  by (simp add: extract_body_def Let_def scanned_values_def)

lemma removed_when_empty:
  assumes "distinct (map fst xs)" and "(key, []) \<in> set xs"
  shows "map_of (remove_empty_items xs) key = None"
proof (rule ccontr)
  assume "map_of (remove_empty_items xs) key \<noteq> None"
  then obtain v where "map_of (remove_empty_items xs) key = Some v" by blast
  then have "(key, v) \<in> set (remove_empty_items xs)" by (rule map_of_SomeD)
  then have "(key, v) \<in> set xs" and "v \<noteq> []"
    by (simp_all add: remove_empty_items_def)
  with assms show False by (meson eq_key_imp_eq_value)
qed

text \<open>
  Claim C4. For every document text the extractor returns a record whose financial data
  hold, under every key they have, at least one pair of a year and a value; and a line
  item for which the scan found no value has no entry at all.
\<close>

theorem present_items_have_values:
  "\<exists>rec fd. extract_financial_data_with_patterns document_text = (Some rec, None)
     \<and> financial_data rec = Some fd
     \<and> (\<forall>key vs. (key, vs) \<in> set fd \<longrightarrow> vs \<noteq> [])
     \<and> (\<forall>key patterns. (key, patterns) \<in> set line_items
           \<longrightarrow> scanned_values patterns document_text = []
           \<longrightarrow> map_of fd key = None)"
proof -
  let ?all = "map (\<lambda>item. (fst item, scanned_values (snd item) document_text)) line_items"
  obtain rec where body: "extract_body document_text = Inr rec"
    and fd: "financial_data rec = Some (remove_empty_items ?all)"
    using extract_body_financial_data by blast
  have keys: "distinct (map fst ?all)"
    using distinct_line_items by (simp add: comp_def)
  have absent: "map_of (remove_empty_items ?all) key = None"
    if "(key, patterns) \<in> set line_items" and "scanned_values patterns document_text = []"
    for key patterns
  proof (rule removed_when_empty [OF keys])
    have "(key, scanned_values patterns document_text) \<in> set ?all"
      using that(1) by force
    then show "(key, []) \<in> set ?all" using that(2) by simp
  qed
  have present: "vs \<noteq> []" if "(key, vs) \<in> set (remove_empty_items ?all)" for key vs
    using that by (simp add: remove_empty_items_def)
  have "extract_financial_data_with_patterns document_text = (Some rec, None)"
    using body by (simp add: extract_financial_data_with_patterns_def)
  then show ?thesis using fd absent present by blast
qed

lemma total_assets_item:
  "(''total_assets'', [seqs [ilit ''total'', spaces, ilit ''assets'']]) \<in> set line_items"
  by (simp add: line_items_def)

lemma total_assets_not_found:
  "scanned_values [seqs [ilit ''total'', spaces, ilit ''assets'']] ''sales , 5'' = []"
  by code_simp

text \<open>A document with a sales line and nothing else: the revenue is present with its one
  value, and the total assets, for which nothing was found, are absent.\<close>

theorem present_items_have_values_witness:
  "\<exists>rec fd. extract_financial_data_with_patterns ''sales , 5'' = (Some rec, None)
     \<and> financial_data rec = Some fd
     \<and> (''revenue'', [(''2023'', 5)]) \<in> set fd
     \<and> [(''2023'', 5 :: rat)] \<noteq> []
     \<and> (''total_assets'', [seqs [ilit ''total'', spaces, ilit ''assets'']]) \<in> set line_items
     \<and> scanned_values [seqs [ilit ''total'', spaces, ilit ''assets'']] ''sales , 5'' = []
     \<and> map_of fd ''total_assets'' = None"
proof -
  obtain rec fd where r: "extract_financial_data_with_patterns ''sales , 5'' = (Some rec, None)"
    and fd: "financial_data rec = Some fd"
    and absent: "\<forall>key patterns. (key, patterns) \<in> set line_items
           \<longrightarrow> scanned_values patterns ''sales , 5'' = []
           \<longrightarrow> map_of fd key = None"
    using present_items_have_values [of "''sales , 5''"] by blast
  have "fd = [(''revenue'', [(''2023'', 5)])]"
    using r fd by (auto simp add: extract_financial_data_with_patterns_def bare_comma_document)
  moreover have "map_of fd ''total_assets'' = None"
    using absent total_assets_item total_assets_not_found by blast
  ultimately show ?thesis
    using r fd total_assets_item total_assets_not_found by simp
qed

section \<open>The line a pattern stops at\<close>

lemma scan_lines_find:
  "scan_lines pattern lines years d
     = (case find (hit pattern) lines of
          None \<Rightarrow> Inr d
        | Some line \<Rightarrow> assign_years 0 years (re_findall number_pattern line) d)"
  by (induction lines) (simp_all add: hit_def Let_def)

lemma find_first:
  "lines = pre @ line # post \<Longrightarrow> P line \<Longrightarrow> \<forall>l \<in> set pre. \<not> P l \<Longrightarrow> find P lines = Some line"
  by (induction pre arbitrary: lines) auto

lemma find_none: "\<forall>l \<in> set lines. \<not> P l \<Longrightarrow> find P lines = None"
  by (simp add: find_None_iff)

text \<open>
  Claim C1, amended. For every document text and every label pattern, the scan of the
  pattern uses only the first line in which the pattern is found and which holds a
  number: lines before it in which the pattern is found without a number are passed
  over, no line after it is read, and the numbers of that one line are assigned to the
  years. When no line is such a line, the values stay as they were.
\<close>

theorem first_line_with_numbers_wins:
  "scan_lines pattern (split_lines document_text) years d
     = (case hit_line pattern document_text of
          None \<Rightarrow> Inr d
        | Some line \<Rightarrow> assign_years 0 years (re_findall number_pattern line) d)
   \<and> (\<forall>pre line post.
         split_lines document_text = pre @ line # post \<and> hit pattern line
           \<and> (\<forall>l \<in> set pre. \<not> hit pattern l)
         \<longrightarrow> hit_line pattern document_text = Some line)
   \<and> ((\<forall>l \<in> set (split_lines document_text). \<not> hit pattern l)
        \<longrightarrow> hit_line pattern document_text = None)"
  unfolding hit_line_def
  using find_first [of "split_lines document_text" _ _ _ "hit pattern"]
    find_none [of "split_lines document_text" "hit pattern"]
  by (simp add: scan_lines_find)

lemma heading_lines:
  "split_lines heading_document = [''Total assets''] @ ''Total assets 500 400'' # []"
  by code_simp

lemma heading_hits:
  "\<not> hit (seqs [ilit ''total'', spaces, ilit ''assets'']) ''Total assets''
   \<and> re_search (seqs [ilit ''total'', spaces, ilit ''assets'']) ''Total assets'' \<noteq> None
   \<and> hit (seqs [ilit ''total'', spaces, ilit ''assets'']) ''Total assets 500 400''"
  by code_simp

lemma heading_assign:
  "assign_years 0 [''2024'', ''2023''] (re_findall number_pattern ''Total assets 500 400'') []
     = Inr [(''2024'', 500), (''2023'', 400)]"
  by code_simp

text \<open>A heading line with the label and no number, followed by the line with the numbers:
  the scan stops at the second line.\<close>

theorem first_line_with_numbers_wins_witness:
  "split_lines heading_document = [''Total assets''] @ ''Total assets 500 400'' # []
   \<and> re_search (seqs [ilit ''total'', spaces, ilit ''assets'']) ''Total assets'' \<noteq> None
   \<and> \<not> hit (seqs [ilit ''total'', spaces, ilit ''assets'']) ''Total assets''
   \<and> hit (seqs [ilit ''total'', spaces, ilit ''assets'']) ''Total assets 500 400''
   \<and> hit_line (seqs [ilit ''total'', spaces, ilit ''assets'']) heading_document
       = Some ''Total assets 500 400''
   \<and> scan_lines (seqs [ilit ''total'', spaces, ilit ''assets''])
         (split_lines heading_document) [''2024'', ''2023''] []
       = Inr [(''2024'', 500), (''2023'', 400)]"
proof -
  let ?p = "seqs [ilit ''total'', spaces, ilit ''assets'']"
  note t = first_line_with_numbers_wins [of ?p heading_document "[''2024'', ''2023'']" "[]"]
  have h: "hit_line ?p heading_document = Some ''Total assets 500 400''"
    using t [THEN conjunct2, THEN conjunct1, rule_format,
        of "[''Total assets'']" "''Total assets 500 400''" "[]"]
      heading_lines heading_hits by simp
  have "scan_lines ?p (split_lines heading_document) [''2024'', ''2023''] []
       = Inr [(''2024'', 500), (''2023'', 400)]"
    using t [THEN conjunct1] h heading_assign by simp
  then show ?thesis using h heading_lines heading_hits by simp
qed

lemma heading_body:
  "extract_body heading_document =
     Inr \<lparr>company_name = Some ''Unknown'', fiscal_years = Some [''2024'', ''2023''],
          financial_data = Some [(''total_assets'', [(''2024'', 500), (''2023'', 400)])],
          currency = Some ''USD'', units = Some ''Actual'', notes_list = Some pattern_notes\<rparr>"
  by code_simp

lemma mixed_body:
  "extract_body mixed_document =
     Inr \<lparr>company_name = Some ''Unknown'', fiscal_years = Some [''2024'', ''2023''],
          financial_data = Some [(''revenue'', [(''2024'', 5), (''2023'', 900)])],
          currency = Some ''USD'', units = Some ''Actual'', notes_list = Some pattern_notes\<rparr>"
  by code_simp

lemma claimed_heading: "claimed_item_values (item_patterns ''total_assets'') heading_document = []"
  by code_simp

lemma claimed_mixed:
  "claimed_item_values (item_patterns ''revenue'') mixed_document
     = [(''2024'', 1000), (''2023'', 900)]"
  by code_simp

text \<open>
  Claim C1 as stated fails on two documents. In the first, the first line in which the
  pattern of the total assets is found holds no number; the claimed scan stops there and
  finds nothing, and the extractor reads on and takes 500 and 400 from the second line.
  In the second, the first revenue pattern is found in the second line, which gives 1000
  and 900; the extractor goes on with the other patterns, finds \<^verbatim>\<open>sales\<close> in the first
  line, and replaces the value of 2024 by 5.
\<close>

theorem first_match_does_not_win:
  "claimed_item_values (item_patterns ''total_assets'') heading_document = []
   \<and> extract_financial_data_with_patterns heading_document =
       (Some \<lparr>company_name = Some ''Unknown'', fiscal_years = Some [''2024'', ''2023''],
          financial_data = Some [(''total_assets'', [(''2024'', 500), (''2023'', 400)])],
          currency = Some ''USD'', units = Some ''Actual'', notes_list = Some pattern_notes\<rparr>,
        None)
   \<and> claimed_item_values (item_patterns ''revenue'') mixed_document
       = [(''2024'', 1000), (''2023'', 900)]
   \<and> extract_financial_data_with_patterns mixed_document =
       (Some \<lparr>company_name = Some ''Unknown'', fiscal_years = Some [''2024'', ''2023''],
          financial_data = Some [(''revenue'', [(''2024'', 5), (''2023'', 900)])],
          currency = Some ''USD'', units = Some ''Actual'', notes_list = Some pattern_notes\<rparr>,
        None)"
  by (simp add: claimed_heading claimed_mixed extract_financial_data_with_patterns_def
      heading_body mixed_body)

section \<open>Numbers and years by position\<close>



lemma try_convert_and_store_lookup:
  "try_convert_and_store year token d = Inr d' \<Longrightarrow>
   map_of d' y
     = (if y = year then
          (case py_float (replace_char (CHR '','') [] token) of
             Inr v \<Rightarrow> Some v
           | Inl e \<Rightarrow> map_of d y)
        else map_of d y)"
  by (auto simp add: try_convert_and_store_def convert_and_store_def update_conv'
      split: sum.splits)

lemma assign_years_other:
  "assign_years j years numbers d = Inr d' \<Longrightarrow> y \<notin> set years \<Longrightarrow> map_of d' y = map_of d y"
proof (induction years arbitrary: j d)
  case Nil
  then show ?case by simp
next
  case (Cons year years)
  obtain d1 where d1: "(if j < length numbers then try_convert_and_store year (numbers ! j) d
                        else Inr d) = Inr d1"
    using try_convert_and_store_returns [of year "numbers ! j" d] by (cases "j < length numbers") auto
  then have "assign_years (Suc j) years numbers d1 = Inr d'"
    using Cons.prems(1) by simp
  then have "map_of d' y = map_of d1 y"
    using Cons.prems(2) by (intro Cons.IH) auto
  moreover have "map_of d1 y = map_of d y"
    using d1 Cons.prems(2) try_convert_and_store_lookup [of year "numbers ! j" d d1 y]
    by (auto split: if_splits)
  ultimately show ?case by simp
qed

lemma assign_years_at:
  "distinct years \<Longrightarrow> i < length years \<Longrightarrow> assign_years j years numbers d = Inr d' \<Longrightarrow>
   map_of d' (years ! i)
     = (if j + i < length numbers then
          (case py_float (replace_char (CHR '','') [] (numbers ! (j + i))) of
             Inr v \<Rightarrow> Some v
           | Inl e \<Rightarrow> map_of d (years ! i))
        else map_of d (years ! i))"
proof (induction years arbitrary: j d i)
  case Nil
  then show ?case by simp
next
  case (Cons year years)
  obtain d1 where d1: "(if j < length numbers then try_convert_and_store year (numbers ! j) d
                        else Inr d) = Inr d1"
    using try_convert_and_store_returns [of year "numbers ! j" d] by (cases "j < length numbers") auto
  then have rest: "assign_years (Suc j) years numbers d1 = Inr d'"
    using Cons.prems(3) by simp
  have step: "map_of d1 y
     = (if y = year \<and> j < length numbers then
          (case py_float (replace_char (CHR '','') [] (numbers ! j)) of
             Inr v \<Rightarrow> Some v
           | Inl e \<Rightarrow> map_of d y)
        else map_of d y)" for y
    using d1 try_convert_and_store_lookup [of year "numbers ! j" d d1 y]
    by (auto split: if_splits)
  show ?case
  proof (cases i)
    case 0
    have "map_of d' year = map_of d1 year"
      using rest Cons.prems(1) by (intro assign_years_other) auto
    then show ?thesis using 0 step [of year] by (simp cong: sum.case_cong)
  next
    case (Suc k)
    have k: "k < length years" using Cons.prems(2) Suc by simp
    have ne: "years ! k \<noteq> year" using Cons.prems(1) k by auto
    have "map_of d' (years ! k)
     = (if Suc j + k < length numbers then
          (case py_float (replace_char (CHR '','') [] (numbers ! (Suc j + k))) of
             Inr v \<Rightarrow> Some v
           | Inl e \<Rightarrow> map_of d1 (years ! k))
        else map_of d1 (years ! k))"
      using Cons.prems(1) k rest by (intro Cons.IH) auto
    then show ?thesis using Suc ne step [of "years ! k"] by (simp cong: sum.case_cong)
  qed
qed

lemma assign_years_positional:
  assumes "distinct years" and "j < length years"
    and "assign_years 0 years numbers d = Inr d'"
  shows "map_of d' (years ! j)
           = (case positional_value numbers j of
                Some v \<Rightarrow> Some v
              | None \<Rightarrow> map_of d (years ! j))"
  using assign_years_at [OF assms(1) assms(2) assms(3)]
  by (simp add: positional_value_def split: sum.splits)

text \<open>The scan of the patterns of one item when every pattern that stops at a line stops
  at the same line.\<close>

lemma scan_patterns_same_line:
  assumes "distinct years" and "j < length years"
  shows "scan_patterns patterns document_text years d = Inr d' \<Longrightarrow>
         \<forall>p \<in> set patterns. hit_line p document_text = None \<or> hit_line p document_text = Some line \<Longrightarrow>
         map_of d' (years ! j)
           = (if \<exists>p \<in> set patterns. hit_line p document_text = Some line then
                (case positional_value (re_findall number_pattern line) j of
                   Some v \<Rightarrow> Some v
                 | None \<Rightarrow> map_of d (years ! j))
              else map_of d (years ! j))"
proof (induction patterns arbitrary: d)
  case Nil
  then show ?case by simp
next
  case (Cons p ps)
  obtain d1 where d1: "scan_lines p (split_lines document_text) years d = Inr d1"
    using scan_lines_returns by blast
  then have rest: "scan_patterns ps document_text years d1 = Inr d'"
    using Cons.prems(1) by simp
  have others: "\<forall>p \<in> set ps. hit_line p document_text = None \<or> hit_line p document_text = Some line"
    using Cons.prems(2) by simp
  note IH = Cons.IH [OF rest others]
  consider (none) "hit_line p document_text = None" | (some) "hit_line p document_text = Some line"
    using Cons.prems(2) by auto
  then show ?case
  proof cases
    case none
    then have "d1 = d" using d1 by (simp add: scan_lines_find hit_line_def)
    then show ?thesis using IH none by (simp cong: option.case_cong)
  next
    case some
    then have "assign_years 0 years (re_findall number_pattern line) d = Inr d1"
      using d1 by (simp add: scan_lines_find hit_line_def)
    then have "map_of d1 (years ! j)
           = (case positional_value (re_findall number_pattern line) j of
                Some v \<Rightarrow> Some v
              | None \<Rightarrow> map_of d (years ! j))"
      using assms by (intro assign_years_positional)
    then show ?thesis using IH some by (simp cong: option.case_cong split: option.splits)
  qed
qed

lemma set_item_hit_lines:
  "set (item_hit_lines patterns document_text)
     = {line. \<exists>p \<in> set patterns. hit_line p document_text = Some line}"
  unfolding item_hit_lines_def
  by (induction patterns) (auto split: option.splits)

lemma scanned_values_same_line:
  assumes "set (item_hit_lines patterns document_text) = {line}"
    and "j < length (extract_fiscal_years document_text)"
  shows "map_of (scanned_values patterns document_text) (extract_fiscal_years document_text ! j)
           = positional_value (re_findall number_pattern line) j"
proof -
  let ?years = "extract_fiscal_years document_text"
  obtain d' where d': "scan_patterns patterns document_text ?years [] = Inr d'"
    using scan_patterns_returns by blast
  have some: "\<exists>p \<in> set patterns. hit_line p document_text = Some line"
    using assms(1) by (auto simp add: set_item_hit_lines)
  have all: "\<forall>p \<in> set patterns. hit_line p document_text = None \<or> hit_line p document_text = Some line"
  proof
    fix p assume p: "p \<in> set patterns"
    show "hit_line p document_text = None \<or> hit_line p document_text = Some line"
    proof (cases "hit_line p document_text")
      case None
      then show ?thesis by simp
    next
      case (Some l)
      then have "l \<in> set (item_hit_lines patterns document_text)"
        using p by (auto simp add: set_item_hit_lines)
      then show ?thesis using assms(1) Some by simp
    qed
  qed
  have "map_of d' (?years ! j)
           = (case positional_value (re_findall number_pattern line) j of
                Some v \<Rightarrow> Some v
              | None \<Rightarrow> map_of [] (?years ! j))"
    using scan_patterns_same_line [OF extract_fiscal_years_distinct assms(2) d' all] some
    by simp
  then show ?thesis using d' by (simp add: scanned_values_def split: option.splits)
qed

lemma lookup_scanned:
  assumes "(key, patterns) \<in> set line_items"
  shows "lookup_value
           (remove_empty_items
              (map (\<lambda>item. (fst item, scanned_values (snd item) document_text)) line_items))
           key year
         = map_of (scanned_values patterns document_text) year"
proof -
  let ?all = "map (\<lambda>item. (fst item, scanned_values (snd item) document_text)) line_items"
  have keys: "distinct (map fst ?all)"
    using distinct_line_items by (simp add: comp_def)
  have mem: "(key, scanned_values patterns document_text) \<in> set ?all"
    using assms by force
  show ?thesis
  proof (cases "scanned_values patterns document_text = []")
    case True
    then have "map_of (remove_empty_items ?all) key = None"
      using removed_when_empty [OF keys] mem by simp
    then show ?thesis using True by (simp add: lookup_value_def)
  next
    case False
    have "distinct (map fst (remove_empty_items ?all))"
      using keys by (simp add: remove_empty_items_def distinct_map_filter)
    moreover have "(key, scanned_values patterns document_text) \<in> set (remove_empty_items ?all)"
      using mem False by (simp add: remove_empty_items_def)
    ultimately have "map_of (remove_empty_items ?all) key
                       = Some (scanned_values patterns document_text)"
      by (rule map_of_is_SomeI)
    then show ?thesis by (simp add: lookup_value_def)
  qed
qed

lemma revenue_item: "(''revenue'', item_patterns ''revenue'') \<in> set line_items"
  by (simp add: item_patterns_def line_items_def)

lemma revenue_line_hit: "hit (hd (item_patterns ''revenue'')) revenue_line"
  by code_simp

lemma revenue_patterns_nonempty:
  "hd (item_patterns ''revenue'') \<in> set (item_patterns ''revenue'')"
  by (simp add: item_patterns_def line_items_def)

lemma revenue_line_values:
  "positional_value (re_findall number_pattern revenue_line) 0 = Some 1000
   \<and> positional_value (re_findall number_pattern revenue_line) 1 = Some 900"
  by code_simp

lemma find_hit_Some: "find P xs = Some x \<Longrightarrow> P x \<and> x \<in> set xs"
  by (auto simp add: find_Some_iff)

lemma only_revenue_line:
  assumes "revenue_line \<in> set (split_lines document_text)"
    and "\<forall>l \<in> set (split_lines document_text).
           (\<exists>p \<in> set (item_patterns ''revenue''). hit p l) \<longrightarrow> l = revenue_line"
  shows "set (item_hit_lines (item_patterns ''revenue'') document_text) = {revenue_line}"
proof -
  let ?p = "hd (item_patterns ''revenue'')"
  have "find (hit ?p) (split_lines document_text) \<noteq> None"
    using assms(1) revenue_line_hit by (auto simp add: find_None_iff)
  then obtain l where l: "hit_line ?p document_text = Some l"
    by (auto simp add: hit_line_def)
  then have "hit ?p l \<and> l \<in> set (split_lines document_text)"
    by (auto simp add: hit_line_def dest: find_hit_Some)
  then have "l = revenue_line"
    using assms(2) revenue_patterns_nonempty by blast
  then have "revenue_line \<in> set (item_hit_lines (item_patterns ''revenue'') document_text)"
    using l revenue_patterns_nonempty by (auto simp add: set_item_hit_lines)
  moreover have "l' = revenue_line"
    if "l' \<in> set (item_hit_lines (item_patterns ''revenue'') document_text)" for l'
  proof -
    from that obtain p where p: "p \<in> set (item_patterns ''revenue'')"
      and h: "hit_line p document_text = Some l'"
      unfolding set_item_hit_lines by blast
    from h have "hit p l' \<and> l' \<in> set (split_lines document_text)"
      by (auto simp add: hit_line_def dest: find_hit_Some)
    then show ?thesis using assms(2) p by blast
  qed
  ultimately show ?thesis by blast
qed

text \<open>
  Claim C2, amended. For every document text the extractor returns a record in which the
  numbers of a matched line are assigned to the fiscal years by position alone: when
  every pattern of a line item that stops at a line stops at the same line, the value of
  the item for the j-th fiscal year is the number the j-th token of that line denotes,
  and the year has no value when the line has no j-th token or the token does not
  convert. In particular, when the fiscal years are 2024 and 2023 and the line
  \<^verbatim>\<open>Revenue from operations 1,000 900\<close> is the only line of the document in which a
  revenue pattern is found together with a number, the revenue of 2024 is 1000 and that
  of 2023 is 900.
\<close>

theorem positional_assignment:
  "\<exists>rec fd. extract_financial_data_with_patterns document_text = (Some rec, None)
     \<and> fiscal_years rec = Some (extract_fiscal_years document_text)
     \<and> financial_data rec = Some fd
     \<and> ((key, patterns) \<in> set line_items
           \<and> set (item_hit_lines patterns document_text) = {line}
         \<longrightarrow> (\<forall>j < length (extract_fiscal_years document_text).
                lookup_value fd key (extract_fiscal_years document_text ! j)
                  = positional_value (re_findall number_pattern line) j))
     \<and> (extract_fiscal_years document_text = [''2024'', ''2023'']
           \<and> revenue_line \<in> set (split_lines document_text)
           \<and> (\<forall>l \<in> set (split_lines document_text).
                 (\<exists>p \<in> set (item_patterns ''revenue''). hit p l) \<longrightarrow> l = revenue_line)
         \<longrightarrow> lookup_value fd ''revenue'' ''2024'' = Some 1000
             \<and> lookup_value fd ''revenue'' ''2023'' = Some 900)"
proof -
  let ?years = "extract_fiscal_years document_text"
  let ?fd = "remove_empty_items
               (map (\<lambda>item. (fst item, scanned_values (snd item) document_text)) line_items)"
  obtain rec where body: "extract_body document_text = Inr rec"
    and fd: "financial_data rec = Some ?fd"
    using extract_body_financial_data by blast
  have years: "fiscal_years rec = Some ?years"
    using body by (auto simp add: extract_body_def Let_def split: sum.splits)
  have general: "lookup_value ?fd k (?years ! j) = positional_value (re_findall number_pattern l) j"
    if "(k, ps) \<in> set line_items" and "set (item_hit_lines ps document_text) = {l}"
      and "j < length ?years" for k ps l j
    using that by (simp add: lookup_scanned scanned_values_same_line)
  have particular: "lookup_value ?fd ''revenue'' ''2024'' = Some 1000
             \<and> lookup_value ?fd ''revenue'' ''2023'' = Some 900"
    if y: "?years = [''2024'', ''2023'']"
      and "revenue_line \<in> set (split_lines document_text)"
      and "\<forall>l \<in> set (split_lines document_text).
                 (\<exists>p \<in> set (item_patterns ''revenue''). hit p l) \<longrightarrow> l = revenue_line"
  proof -
    have one: "set (item_hit_lines (item_patterns ''revenue'') document_text) = {revenue_line}"
      using that(2,3) by (rule only_revenue_line)
    have "lookup_value ?fd ''revenue'' (?years ! 0) = Some 1000"
      using general [OF revenue_item one, of 0] y revenue_line_values by simp
    moreover have "lookup_value ?fd ''revenue'' (?years ! 1) = Some 900"
      using general [OF revenue_item one, of 1] y revenue_line_values by simp
    ultimately show ?thesis using y by simp
  qed
  have res: "extract_financial_data_with_patterns document_text = (Some rec, None)"
    using body by (simp add: extract_financial_data_with_patterns_def)
  have g: "(key, patterns) \<in> set line_items
           \<and> set (item_hit_lines patterns document_text) = {line}
         \<longrightarrow> (\<forall>j < length ?years.
                lookup_value ?fd key (?years ! j)
                  = positional_value (re_findall number_pattern line) j)"
    using general by blast
  have p: "?years = [''2024'', ''2023'']
           \<and> revenue_line \<in> set (split_lines document_text)
           \<and> (\<forall>l \<in> set (split_lines document_text).
                 (\<exists>p \<in> set (item_patterns ''revenue''). hit p l) \<longrightarrow> l = revenue_line)
         \<longrightarrow> lookup_value ?fd ''revenue'' ''2024'' = Some 1000
             \<and> lookup_value ?fd ''revenue'' ''2023'' = Some 900"
    using particular by blast
  show ?thesis
    by (rule exI [of _ rec], rule exI [of _ ?fd]) (intro conjI res years fd g p)
qed

lemma scenario_years: "extract_fiscal_years scenario_document = [''2024'', ''2023'']"
  by code_simp

lemma scenario_lines: "split_lines scenario_document = [''2024 2023'', revenue_line]"
  by code_simp

lemma scenario_only:
  "list_all (\<lambda>l. \<not> list_ex (\<lambda>p. hit p l) (item_patterns ''revenue'') \<or> l = revenue_line)
     (split_lines scenario_document)"
  by code_simp

text \<open>The document of the scenario: the years in the first line, the revenue line in the
  second.\<close>

theorem positional_assignment_witness:
  "extract_fiscal_years scenario_document = [''2024'', ''2023'']
   \<and> revenue_line \<in> set (split_lines scenario_document)
   \<and> list_all (\<lambda>l. \<not> list_ex (\<lambda>p. hit p l) (item_patterns ''revenue'') \<or> l = revenue_line)
        (split_lines scenario_document)
   \<and> (''revenue'', item_patterns ''revenue'') \<in> set line_items
   \<and> set (item_hit_lines (item_patterns ''revenue'') scenario_document) = {revenue_line}
   \<and> (\<exists>rec fd. extract_financial_data_with_patterns scenario_document = (Some rec, None)
          \<and> fiscal_years rec = Some [''2024'', ''2023'']
          \<and> financial_data rec = Some fd
          \<and> lookup_value fd ''revenue'' ''2024'' = Some 1000
          \<and> lookup_value fd ''revenue'' ''2023'' = Some 900)"
proof -
  have line: "revenue_line \<in> set (split_lines scenario_document)"
    by (simp add: scenario_lines)
  have only: "\<forall>l \<in> set (split_lines scenario_document).
                (\<exists>p \<in> set (item_patterns ''revenue''). hit p l) \<longrightarrow> l = revenue_line"
    using scenario_only by (auto simp add: list_all_iff list_ex_iff)
  have one: "set (item_hit_lines (item_patterns ''revenue'') scenario_document) = {revenue_line}"
    using line only by (rule only_revenue_line)
  obtain rec fd where r: "extract_financial_data_with_patterns scenario_document = (Some rec, None)"
    and y: "fiscal_years rec = Some (extract_fiscal_years scenario_document)"
    and fd: "financial_data rec = Some fd"
    and particular: "extract_fiscal_years scenario_document = [''2024'', ''2023'']
           \<and> revenue_line \<in> set (split_lines scenario_document)
           \<and> (\<forall>l \<in> set (split_lines scenario_document).
                 (\<exists>p \<in> set (item_patterns ''revenue''). hit p l) \<longrightarrow> l = revenue_line)
         \<longrightarrow> lookup_value fd ''revenue'' ''2024'' = Some 1000
             \<and> lookup_value fd ''revenue'' ''2023'' = Some 900"
    using positional_assignment [of scenario_document "''revenue''" "item_patterns ''revenue''"
        revenue_line] by blast
  have "lookup_value fd ''revenue'' ''2024'' = Some 1000
        \<and> lookup_value fd ''revenue'' ''2023'' = Some 900"
    using particular scenario_years line only by blast
  then have "\<exists>rec fd. extract_financial_data_with_patterns scenario_document = (Some rec, None)
          \<and> fiscal_years rec = Some [''2024'', ''2023'']
          \<and> financial_data rec = Some fd
          \<and> lookup_value fd ''revenue'' ''2024'' = Some 1000
          \<and> lookup_value fd ''revenue'' ''2023'' = Some 900"
    using r y fd scenario_years by auto
  then show ?thesis
    using scenario_years line scenario_only revenue_item one by blast
qed

lemma two_revenue_lines_split:
  "split_lines two_revenue_lines = [''Revenue from operations 7 8'', revenue_line]"
  by code_simp

lemma two_revenue_lines_body:
  "extract_body two_revenue_lines =
     Inr \<lparr>company_name = Some ''Unknown'', fiscal_years = Some [''2024'', ''2023''],
          financial_data = Some [(''revenue'', [(''2024'', 7), (''2023'', 8)])],
          currency = Some ''USD'', units = Some ''Actual'', notes_list = Some pattern_notes\<rparr>"
  by code_simp

text \<open>
  Claim C2 as stated fails: a document that holds the line
  \<^verbatim>\<open>Revenue from operations 1,000 900\<close> after another line with the same label has the
  fiscal years 2024 and 2023, and its revenue is 7 and 8, the numbers of the earlier line.
\<close>

theorem earlier_line_with_the_label_wins:
  "revenue_line = ''Revenue from operations 1,000 900''
   \<and> split_lines two_revenue_lines = [''Revenue from operations 7 8'', revenue_line]
   \<and> extract_financial_data_with_patterns two_revenue_lines =
       (Some \<lparr>company_name = Some ''Unknown'', fiscal_years = Some [''2024'', ''2023''],
          financial_data = Some [(''revenue'', [(''2024'', 7), (''2023'', 8)])],
          currency = Some ''USD'', units = Some ''Actual'', notes_list = Some pattern_notes\<rparr>,
        None)"
  by (simp add: two_revenue_lines_split extract_financial_data_with_patterns_def
      two_revenue_lines_body) (simp add: revenue_line_def)

end
